theory Spec2Isabelle
  imports Complex_Main "HOL-Library.AList"
begin

section \<open>WatchGraph API: requirement applicability and compliance aggregation\<close>

text \<open>
  A shallow embedding of \<^verbatim>\<open>src/models.py\<close> and of the request handlers of
  \<^verbatim>\<open>src/app.py\<close> that register an AI system, summarise its compliance and update
  the status of one requirement mapping.  The relational store is a record of three
  tables (lists of rows, in storage order); a handler takes the store and returns its
  result together with the store it leaves behind.  An exception of the Python code is
  the \<open>Inl\<close> branch of a sum.
\<close>

subsection \<open>Enumerations (\<^verbatim>\<open>models.py\<close>, lines 10-22)\<close>

datatype RiskCategory = UNACCEPTABLE | HIGH | LIMITED | MINIMAL

datatype ComplianceStatus = NOT_STARTED | IN_PROGRESS | COMPLETED | NON_COMPLIANT

text \<open>The \<^verbatim>\<open>.value\<close> of an enumeration member: its external string form.\<close>

fun risk_value :: "RiskCategory \<Rightarrow> string" where
  "risk_value UNACCEPTABLE = ''unacceptable''"
| "risk_value HIGH = ''high''"
| "risk_value LIMITED = ''limited''"
| "risk_value MINIMAL = ''minimal''"

fun status_value :: "ComplianceStatus \<Rightarrow> string" where
  "status_value NOT_STARTED = ''not_started''"
| "status_value IN_PROGRESS = ''in_progress''"
| "status_value COMPLETED = ''completed''"
| "status_value NON_COMPLIANT = ''non_compliant''"

subsection \<open>Exceptions\<close>

text \<open>
  \<open>HTTPException\<close> carries the status code and the detail string of the handler.  The
  other constructors are the Python and SQLAlchemy exceptions that the modelled lines can
  raise.
\<close>

datatype py_error =
    HTTPException nat string
  | JSONDecodeError
  | TypeError
  | KeyError
  | ZeroDivisionError
  | AttributeError
  | IntegrityError
  | OperationalError

subsection \<open>Tables (\<^verbatim>\<open>models.py\<close>, lines 24-80)\<close>

text \<open>
  Identifiers are the strings produced by \<^verbatim>\<open>str(uuid.uuid4())\<close>; a point in time
  (\<^verbatim>\<open>datetime\<close>) is a natural number.  A nullable column is an \<open>option\<close>.
\<close>

type_synonym uuid = string
type_synonym datetime = nat

record AISystem =
  s_id :: uuid
  s_name :: string
  s_description :: "string option"
  s_risk_category :: RiskCategory
  s_organization :: "string option"
  s_department :: "string option"
  s_owner_email :: "string option"
  s_created_at :: datetime
  s_updated_at :: datetime

text \<open>
  \<open>r_applies_to\<close> is the text held in the \<^verbatim>\<open>applies_to\<close> column, which
  \<^verbatim>\<open>create_ai_system\<close> hands to \<^verbatim>\<open>json.loads\<close>.
\<close>

record ComplianceRequirement =
  r_id :: uuid
  r_article :: string
  r_title :: string
  r_description :: string
  r_applies_to :: string

record RequirementMapping =
  m_id :: uuid
  m_ai_system_id :: uuid
  m_requirement_id :: uuid
  m_status :: ComplianceStatus
  m_notes :: "string option"
  m_updated_by :: "string option"
  m_created_at :: datetime
  m_updated_at :: datetime

text \<open>The committed content of the store: what a later request reads.\<close>

record db =
  ai_systems :: "AISystem list"
  compliance_requirements :: "ComplianceRequirement list"
  requirement_mappings :: "RequirementMapping list"

subsection \<open>Python values used by the handlers\<close>

text \<open>What \<^verbatim>\<open>json.loads\<close> can return.  The payload of a number plays no role here.\<close>

datatype json =
    JNull
  | JBool bool
  | JNum rat
  | JStr string
  | JList "json list"
  | JDict "(string \<times> json) list"

text \<open>
  \<^verbatim>\<open>s in v\<close> for a string \<open>s\<close> and a loaded JSON value \<open>v\<close>: element equality on a
  list, substring test on a string, key membership on a dict, and \<^verbatim>\<open>TypeError\<close>
  on \<^verbatim>\<open>None\<close>, a bool or a number.  A string equals a list element only when the
  element is the same string.
\<close>

fun is_prefix :: "string \<Rightarrow> string \<Rightarrow> bool" where
  "is_prefix [] ys = True"
| "is_prefix (x # xs) [] = False"
| "is_prefix (x # xs) (y # ys) = (x = y \<and> is_prefix xs ys)"

fun is_substring :: "string \<Rightarrow> string \<Rightarrow> bool" where
  "is_substring s [] = (s = [])"
| "is_substring s (y # ys) = (is_prefix s (y # ys) \<or> is_substring s ys)"

fun py_in :: "string \<Rightarrow> json \<Rightarrow> py_error + bool" where
  "py_in s (JList xs) = Inr (JStr s \<in> set xs)"
| "py_in s (JStr t) = Inr (is_substring s t)"
| "py_in s (JDict kvs) = Inr (s \<in> set (map fst kvs))"
| "py_in s JNull = Inl TypeError"
| "py_in s (JBool b) = Inl TypeError"
| "py_in s (JNum n) = Inl TypeError"

text \<open>
  A number of a response is a Python \<^verbatim>\<open>int\<close> or a \<^verbatim>\<open>float\<close>.  A float is
  represented by the rational number that the binary64 value denotes.
\<close>

datatype py_number = PyInt int | PyFloat rat

subsection \<open>Binary64 arithmetic\<close>

text \<open>
  \<open>round_half_even\<close> rounds a rational to the nearest integer, ties to the even one.
  \<open>floor_log2 q\<close> is the exponent \<open>e\<close> with \<open>2 ^ e \<le> q < 2 ^ (e + 1)\<close> for \<open>q > 0\<close>.
  \<open>float_round\<close> is IEEE 754 round-to-nearest-even onto binary64 (53 significant bits,
  least normal exponent \<open>-1022\<close>); the handlers only reach values between 0 and 100, so
  overflow to infinity is left out.
\<close>

definition round_half_even :: "rat \<Rightarrow> int" where
  "round_half_even x =
     (let f = \<lfloor>x\<rfloor>; r = x - of_int f
      in if r < 1 / 2 then f
         else if 1 / 2 < r then f + 1
         else if even f then f else f + 1)"

function bit_length :: "int \<Rightarrow> nat" where
  "bit_length n = (if n \<le> 0 then 0 else Suc (bit_length (n div 2)))"
  by pat_completeness auto
termination
  by (relation "measure nat") auto

declare bit_length.simps [simp del]

definition pow2 :: "int \<Rightarrow> rat" where
  "pow2 e = (if 0 \<le> e then 2 ^ nat e else 1 / 2 ^ nat (- e))"

definition floor_log2 :: "rat \<Rightarrow> int" where
  "floor_log2 q =
     (let (a, b) = quotient_of q;
          d = int (bit_length a) - int (bit_length b)
      in if pow2 d \<le> q then d else d - 1)"

definition float_round :: "rat \<Rightarrow> rat" where
  "float_round q =
     (if q = 0 then 0
      else let e = max (floor_log2 \<bar>q\<bar>) (- 1022);
               u = pow2 (e - 52)
           in of_int (round_half_even (q / u)) * u)"

text \<open>
  \<^verbatim>\<open>a / b\<close> on Python integers is the correctly rounded quotient; \<^verbatim>\<open>x * y\<close> on
  floats is the rounded product; \<^verbatim>\<open>round(x, n)\<close> rounds the exact value of \<open>x\<close> to
  \<open>n\<close> decimals, ties to even, and returns the nearest float.
\<close>

definition int_truediv :: "int \<Rightarrow> int \<Rightarrow> py_error + rat" where
  "int_truediv a b =
     (if b = 0 then Inl ZeroDivisionError else Inr (float_round (of_int a / of_int b)))"

definition float_mul :: "rat \<Rightarrow> rat \<Rightarrow> rat" where
  "float_mul x y = float_round (x * y)"

definition py_round :: "rat \<Rightarrow> nat \<Rightarrow> rat" where
  "py_round x ndigits =
     float_round (of_int (round_half_even (x * 10 ^ ndigits)) / 10 ^ ndigits)"

subsection \<open>The environment of one request\<close>

text \<open>
  What a handler takes from outside the two source files: the identifiers that
  \<^verbatim>\<open>uuid.uuid4\<close> draws during the request (\<open>uuid4 env k\<close> is the \<open>k\<close>-th one), the clock
  reading that \<^verbatim>\<open>datetime.utcnow\<close> gives to the column defaults (one instant for the
  whole request), the library function \<^verbatim>\<open>json.loads\<close>, and the exception, if any,
  with which the store answers the catalog query
  \<^verbatim>\<open>db.query(ComplianceRequirement).all()\<close>.
\<close>

record env =
  uuid4 :: "nat \<Rightarrow> uuid"
  utcnow :: datetime
  json_loads :: "string \<Rightarrow> py_error + json"
  catalog_query_error :: "py_error option"

subsection \<open>Request and response schemas (\<^verbatim>\<open>app.py\<close>, lines 12-46)\<close>

record AISystemCreate =
  c_name :: string
  c_description :: "string option"
  c_risk_category :: RiskCategory
  c_organization :: "string option"
  c_department :: "string option"
  c_owner_email :: "string option"

text \<open>The two timestamps of a response are kept as instants (\<^verbatim>\<open>isoformat\<close> renders them).\<close>

record AISystemResponse =
  a_id :: uuid
  a_name :: string
  a_description :: "string option"
  a_risk_category :: string
  a_organization :: "string option"
  a_department :: "string option"
  a_owner_email :: "string option"
  a_created_at :: datetime
  a_updated_at :: datetime

text \<open>
  \<open>u_notes\<close> and \<open>u_updated_by\<close> are \<^verbatim>\<open>Optional[str]\<close> with default \<^verbatim>\<open>None\<close>:
  \<open>None\<close> stands for a field that the request left out.
\<close>

record RequirementStatusUpdate =
  u_status :: ComplianceStatus
  u_notes :: "string option"
  u_updated_by :: "string option"

definition system_response :: "AISystem \<Rightarrow> AISystemResponse" where
  "system_response s =
     \<lparr>a_id = s_id s, a_name = s_name s, a_description = s_description s,
      a_risk_category = risk_value (s_risk_category s),
      a_organization = s_organization s, a_department = s_department s,
      a_owner_email = s_owner_email s,
      a_created_at = s_created_at s, a_updated_at = s_updated_at s\<rparr>"

subsection \<open>Registration (\<^verbatim>\<open>create_ai_system\<close>, \<^verbatim>\<open>app.py\<close>, lines 105-176)\<close>

text \<open>
  \<^verbatim>\<open>db.add(db_system); db.commit()\<close> inserts the row; the primary key of the table
  rejects an identifier that is already stored.
\<close>

definition commit_insert_system :: "db \<Rightarrow> AISystem \<Rightarrow> py_error + db" where
  "commit_insert_system d s =
     (if s_id s \<in> set (map s_id (ai_systems d)) then Inl IntegrityError
      else Inr (d\<lparr>ai_systems := ai_systems d @ [s]\<rparr>))"

definition query_all_requirements :: "env \<Rightarrow> db \<Rightarrow> py_error + ComplianceRequirement list" where
  "query_all_requirements env d =
     (case catalog_query_error env of
        Some e \<Rightarrow> Inl e
      | None \<Rightarrow> Inr (compliance_requirements d))"

text \<open>
  The arguments of \<^verbatim>\<open>RequirementMapping(ai_system_id=..., requirement_id=..., status=...)\<close>:
  an object added to the session and not yet flushed.
\<close>

record PendingMapping =
  p_ai_system_id :: uuid
  p_requirement_id :: uuid
  p_status :: ComplianceStatus

text \<open>
  The loop of lines 147-159.  \<open>pending\<close> holds the objects given to \<^verbatim>\<open>db.add\<close> so far,
  in order; the counter \<^verbatim>\<open>requirements_assigned\<close> is its length and only feeds the
  \<^verbatim>\<open>print\<close>.  An exception of \<^verbatim>\<open>json.loads\<close> or of \<^verbatim>\<open>in\<close> leaves the loop.
\<close>

fun assign_requirements ::
  "env \<Rightarrow> string \<Rightarrow> uuid \<Rightarrow> ComplianceRequirement list \<Rightarrow> PendingMapping list
     \<Rightarrow> py_error + PendingMapping list" where
  "assign_requirements env risk sid [] pending = Inr pending"
| "assign_requirements env risk sid (requirement # rest) pending =
     (case json_loads env (r_applies_to requirement) of
        Inl e \<Rightarrow> Inl e
      | Inr applies_to \<Rightarrow>
          (case py_in risk applies_to of
             Inl e \<Rightarrow> Inl e
           | Inr applicable \<Rightarrow>
               assign_requirements env risk sid rest
                 (if applicable
                  then pending @ [\<lparr>p_ai_system_id = sid,
                                    p_requirement_id = r_id requirement,
                                    p_status = NOT_STARTED\<rparr>]
                  else pending)))"

text \<open>
  The flush of the second \<^verbatim>\<open>db.commit()\<close>: every pending object becomes a row, its
  column defaults filled in (a fresh identifier, no notes, no updater, both timestamps).
  The rows are inserted in one transaction; the primary key rejects the transaction as
  a whole when an identifier repeats.
\<close>

definition flush_mapping :: "env \<Rightarrow> nat \<times> PendingMapping \<Rightarrow> RequirementMapping" where
  "flush_mapping env kp =
     \<lparr>m_id = uuid4 env (Suc (fst kp)),
      m_ai_system_id = p_ai_system_id (snd kp),
      m_requirement_id = p_requirement_id (snd kp),
      m_status = p_status (snd kp),
      m_notes = None,
      m_updated_by = None,
      m_created_at = utcnow env,
      m_updated_at = utcnow env\<rparr>"

definition commit_insert_mappings :: "env \<Rightarrow> db \<Rightarrow> PendingMapping list \<Rightarrow> py_error + db" where
  "commit_insert_mappings env d pending =
     (let rows = map (flush_mapping env) (enumerate 0 pending)
      in if distinct (map m_id rows)
            \<and> set (map m_id rows) \<inter> set (map m_id (requirement_mappings d)) = {}
         then Inr (d\<lparr>requirement_mappings := requirement_mappings d @ rows\<rparr>)
         else Inl IntegrityError)"

text \<open>
  The handler.  Its second result lists the states of the store that its commits make
  visible, in order: the first commit (line 140) publishes the system row, the second
  (line 161) the mapping rows.  When an exception leaves the handler, the objects that
  were added and not committed are dropped with the session.
\<close>

definition create_ai_system ::
  "env \<Rightarrow> AISystemCreate \<Rightarrow> db \<Rightarrow> (py_error + AISystemResponse) \<times> db list" where
  "create_ai_system env system d =
     (let db_system =
            \<lparr>s_id = uuid4 env 0, s_name = c_name system,
             s_description = c_description system,
             s_risk_category = c_risk_category system,
             s_organization = c_organization system,
             s_department = c_department system,
             s_owner_email = c_owner_email system,
             s_created_at = utcnow env, s_updated_at = utcnow env\<rparr>
      in case commit_insert_system d db_system of
           Inl e \<Rightarrow> (Inl e, [])
         | Inr d1 \<Rightarrow>
             (case query_all_requirements env d1 of
                Inl e \<Rightarrow> (Inl e, [d1])
              | Inr applicable_requirements \<Rightarrow>
                  (case assign_requirements env (risk_value (c_risk_category system))
                          (s_id db_system) applicable_requirements [] of
                     Inl e \<Rightarrow> (Inl e, [d1])
                   | Inr pending \<Rightarrow>
                       (case commit_insert_mappings env d1 pending of
                          Inl e \<Rightarrow> (Inl e, [d1])
                        | Inr d2 \<Rightarrow> (Inr (system_response db_system), [d1, d2])))))"

text \<open>The store after the handler: the last state it committed, if any.\<close>

definition final_db :: "db \<Rightarrow> db list \<Rightarrow> db" where
  "final_db d commits = last (d # commits)"

subsection \<open>System lookup (\<^verbatim>\<open>get_ai_system\<close>, \<^verbatim>\<open>app.py\<close>, lines 202-224)\<close>

text \<open>
  \<^verbatim>\<open>db.query(T).filter(T.id == x).first()\<close> is \<open>find\<close> on the table.  A handler that
  only reads returns the store as it received it.
\<close>

definition get_ai_system :: "uuid \<Rightarrow> db \<Rightarrow> (py_error + AISystemResponse) \<times> db" where
  "get_ai_system system_id d =
     (case find (\<lambda>s. s_id s = system_id) (ai_systems d) of
        None \<Rightarrow> (Inl (HTTPException 404 ''AI system not found''), d)
      | Some system \<Rightarrow> (Inr (system_response system), d))"

subsection \<open>Compliance summary (\<^verbatim>\<open>get_system_compliance\<close>, \<^verbatim>\<open>app.py\<close>, lines 288-343)\<close>

text \<open>
  A Python dict from status names to counts is an association list in insertion order.
  \<^verbatim>\<open>d[k]\<close> and \<^verbatim>\<open>d[k] += 1\<close> raise \<^verbatim>\<open>KeyError\<close> on a missing key.
\<close>

type_synonym status_dict = "(string \<times> int) list"

definition dict_get :: "status_dict \<Rightarrow> string \<Rightarrow> py_error + int" where
  "dict_get sd k = (case map_of sd k of None \<Rightarrow> Inl KeyError | Some v \<Rightarrow> Inr v)"

definition dict_incr :: "status_dict \<Rightarrow> string \<Rightarrow> py_error + status_dict" where
  "dict_incr sd k =
     (case map_of sd k of
        None \<Rightarrow> Inl KeyError
      | Some v \<Rightarrow> Inr (AList.update k (v + 1) sd))"

text \<open>The loop of lines 326-327.\<close>

fun count_statuses :: "RequirementMapping list \<Rightarrow> status_dict \<Rightarrow> py_error + status_dict" where
  "count_statuses [] status_counts = Inr status_counts"
| "count_statuses (mapping # rest) status_counts =
     (case dict_incr status_counts (status_value (m_status mapping)) of
        Inl e \<Rightarrow> Inl e
      | Inr status_counts' \<Rightarrow> count_statuses rest status_counts')"

text \<open>
  The returned dict.  The four \<open>requirements_...\<close> keys exist only in the dict of
  line 332; the dict of line 309 has none of them.
\<close>

record ComplianceSummary =
  system_id :: uuid
  system_name :: string
  risk_category :: string
  total_requirements :: int
  compliance_percentage :: py_number
  status_breakdown :: status_dict
  requirements_completed :: "int option"
  requirements_in_progress :: "int option"
  requirements_not_started :: "int option"
  requirements_non_compliant :: "int option"

definition sum_bind :: "'e + 'a \<Rightarrow> ('a \<Rightarrow> 'e + 'b) \<Rightarrow> 'e + 'b" where
  "sum_bind x f = (case x of Inl e \<Rightarrow> Inl e | Inr v \<Rightarrow> f v)"

definition summarize ::
  "uuid \<Rightarrow> AISystem \<Rightarrow> RequirementMapping list \<Rightarrow> py_error + ComplianceSummary" where
  "summarize sid system mappings =
     (let total = int (length mappings)
      in if total = 0
         then Inr \<lparr>system_id = sid, system_name = s_name system,
                   risk_category = risk_value (s_risk_category system),
                   total_requirements = 0,
                   compliance_percentage = PyInt 0,
                   status_breakdown = [],
                   requirements_completed = None,
                   requirements_in_progress = None,
                   requirements_not_started = None,
                   requirements_non_compliant = None\<rparr>
         else
           sum_bind (count_statuses mappings
                       [(''not_started'', 0), (''in_progress'', 0),
                        (''completed'', 0), (''non_compliant'', 0)])
           (\<lambda>status_counts.
           sum_bind (dict_get status_counts ''completed'') (\<lambda>completed.
           sum_bind (int_truediv completed total) (\<lambda>ratio.
           sum_bind (dict_get status_counts ''completed'') (\<lambda>n_completed.
           sum_bind (dict_get status_counts ''in_progress'') (\<lambda>n_in_progress.
           sum_bind (dict_get status_counts ''not_started'') (\<lambda>n_not_started.
           sum_bind (dict_get status_counts ''non_compliant'') (\<lambda>n_non_compliant.
             Inr \<lparr>system_id = sid, system_name = s_name system,
                  risk_category = risk_value (s_risk_category system),
                  total_requirements = total,
                  compliance_percentage = PyFloat (py_round (float_mul ratio 100) 2),
                  status_breakdown = status_counts,
                  requirements_completed = Some n_completed,
                  requirements_in_progress = Some n_in_progress,
                  requirements_not_started = Some n_not_started,
                  requirements_non_compliant = Some n_non_compliant\<rparr>))))))))"

definition get_system_compliance :: "uuid \<Rightarrow> db \<Rightarrow> (py_error + ComplianceSummary) \<times> db" where
  "get_system_compliance sid d =
     (case find (\<lambda>s. s_id s = sid) (ai_systems d) of
        None \<Rightarrow> (Inl (HTTPException 404 ''AI system not found''), d)
      | Some system \<Rightarrow>
          (summarize sid system
             (filter (\<lambda>m. m_ai_system_id m = sid) (requirement_mappings d)), d))"

subsection \<open>Status update (\<^verbatim>\<open>update_requirement_status\<close>, \<^verbatim>\<open>app.py\<close>, lines 346-403)\<close>

text \<open>
  The flush of \<^verbatim>\<open>db.commit()\<close> for a loaded object whose attributes were assigned.
  SQLAlchemy compares every assigned attribute with the value it loaded and emits an
  \<^verbatim>\<open>UPDATE\<close> only when one of them differs; the \<^verbatim>\<open>onupdate=datetime.utcnow\<close> of
  \<^verbatim>\<open>updated_at\<close> (\<^verbatim>\<open>models.py\<close>, line 75) is evaluated as part of that statement.
  With no net change no statement is sent and the row stays as it is.
\<close>

definition flush_update :: "env \<Rightarrow> RequirementMapping \<Rightarrow> RequirementMapping \<Rightarrow> RequirementMapping" where
  "flush_update env loaded assigned =
     (if m_status assigned = m_status loaded
         \<and> m_notes assigned = m_notes loaded
         \<and> m_updated_by assigned = m_updated_by loaded
      then loaded
      else assigned\<lparr>m_updated_at := utcnow env\<rparr>)"

definition commit_update_mapping :: "db \<Rightarrow> RequirementMapping \<Rightarrow> db" where
  "commit_update_mapping d row =
     d\<lparr>requirement_mappings :=
         map (\<lambda>m. if m_id m = m_id row then row else m) (requirement_mappings d)\<rparr>"

record StatusUpdateResponse =
  o_mapping_id :: uuid
  o_requirement_id :: uuid
  o_article :: string
  o_title :: string
  o_old_status :: string
  o_new_status :: string
  o_notes :: "string option"
  o_updated_by :: "string option"
  o_updated_at :: datetime

text \<open>
  The handler.  \<^verbatim>\<open>requirement.title\<close> of line 390 raises \<^verbatim>\<open>AttributeError\<close> when
  the catalog has no row for the mapping's requirement; the commit of line 382 has
  happened by then.
\<close>

definition update_requirement_status ::
  "env \<Rightarrow> uuid \<Rightarrow> RequirementStatusUpdate \<Rightarrow> db \<Rightarrow> (py_error + StatusUpdateResponse) \<times> db" where
  "update_requirement_status env mapping_id upd d =
     (case find (\<lambda>m. m_id m = mapping_id) (requirement_mappings d) of
        None \<Rightarrow> (Inl (HTTPException 404 ''Requirement mapping not found''), d)
      | Some loaded \<Rightarrow>
          (let old_status = status_value (m_status loaded);
               mapping1 = loaded\<lparr>m_status := u_status upd\<rparr>;
               mapping2 = (case u_notes upd of
                             None \<Rightarrow> mapping1
                           | Some n \<Rightarrow> mapping1\<lparr>m_notes := Some n\<rparr>);
               mapping3 = (case u_updated_by upd of
                             None \<Rightarrow> mapping2
                           | Some b \<Rightarrow> mapping2\<lparr>m_updated_by := Some b\<rparr>);
               mapping = flush_update env loaded mapping3;
               d' = commit_update_mapping d mapping
           in case find (\<lambda>r. r_id r = m_requirement_id mapping) (compliance_requirements d') of
                None \<Rightarrow> (Inl AttributeError, d')
              | Some requirement \<Rightarrow>
                  (Inr \<lparr>o_mapping_id = m_id mapping,
                        o_requirement_id = r_id requirement,
                        o_article = r_article requirement,
                        o_title = r_title requirement,
                        o_old_status = old_status,
                        o_new_status = status_value (m_status mapping),
                        o_notes = m_notes mapping,
                        o_updated_by = m_updated_by mapping,
                        o_updated_at = m_updated_at mapping\<rparr>, d')))"

subsection \<open>Reachable stores\<close>

text \<open>
  The stores that the handlers produce from a seeded catalog with no system registered.
  The catalog table has a primary key, so its identifiers are distinct.  Every state
  that a commit of a registration makes visible counts as reachable.
\<close>

inductive reachable :: "db \<Rightarrow> bool" where
  reach_init:
    "ai_systems d = [] \<Longrightarrow> requirement_mappings d = [] \<Longrightarrow>
     distinct (map r_id (compliance_requirements d)) \<Longrightarrow> reachable d"
| reach_register:
    "reachable d \<Longrightarrow> d' \<in> set (snd (create_ai_system env system d)) \<Longrightarrow> reachable d'"
| reach_update:
    "reachable d \<Longrightarrow> d' = snd (update_requirement_status env mapping_id upd d) \<Longrightarrow>
     reachable d'"
| reach_get_system:
    "reachable d \<Longrightarrow> d' = snd (get_ai_system sid d) \<Longrightarrow> reachable d'"
| reach_get_compliance:
    "reachable d \<Longrightarrow> d' = snd (get_system_compliance sid d) \<Longrightarrow> reachable d'"

subsection \<open>Notions used in the statements\<close>

text \<open>The tracking records of a system, and those of a system for one requirement.\<close>

definition mappings_of :: "uuid \<Rightarrow> db \<Rightarrow> RequirementMapping list" where
  "mappings_of sid d = filter (\<lambda>m. m_ai_system_id m = sid) (requirement_mappings d)"

definition tracking_records :: "uuid \<Rightarrow> uuid \<Rightarrow> RequirementMapping list \<Rightarrow> RequirementMapping list" where
  "tracking_records sid qid ms =
     filter (\<lambda>m. m_ai_system_id m = sid \<and> m_requirement_id m = qid) ms"

definition count_status :: "ComplianceStatus \<Rightarrow> RequirementMapping list \<Rightarrow> int" where
  "count_status st ms = int (length (filter (\<lambda>m. m_status m = st) ms))"

text \<open>
  The test of lines 149-152 for one catalog row, and the reading of the column as an
  applicability set: the column text loads to a JSON list and the category's name is
  one of its elements.
\<close>

definition requirement_applies :: "env \<Rightarrow> string \<Rightarrow> ComplianceRequirement \<Rightarrow> py_error + bool" where
  "requirement_applies env risk q = sum_bind (json_loads env (r_applies_to q)) (py_in risk)"

definition loads_to_list :: "env \<Rightarrow> ComplianceRequirement \<Rightarrow> bool" where
  "loads_to_list env q =
     (case json_loads env (r_applies_to q) of Inr (JList xs) \<Rightarrow> True | _ \<Rightarrow> False)"

definition in_applicability_set :: "env \<Rightarrow> RiskCategory \<Rightarrow> ComplianceRequirement \<Rightarrow> bool" where
  "in_applicability_set env R q =
     (case json_loads env (r_applies_to q) of
        Inr (JList xs) \<Rightarrow> JStr (risk_value R) \<in> set xs
      | _ \<Rightarrow> False)"

text \<open>
  The identifiers drawn for a registration are new: the system's is not stored, and
  the first \<open>n\<close> drawn for mappings are pairwise different and not stored.
\<close>

definition fresh_ids :: "env \<Rightarrow> db \<Rightarrow> nat \<Rightarrow> bool" where
  "fresh_ids env d n =
     (uuid4 env 0 \<notin> set (map s_id (ai_systems d))
      \<and> distinct (map (\<lambda>k. uuid4 env (Suc k)) [0..<n])
      \<and> set (map (\<lambda>k. uuid4 env (Suc k)) [0..<n]) \<inter> set (map m_id (requirement_mappings d)) = {})"

text \<open>
  The pieces of a registration: the pending object of line 153 for a catalog row, the
  system row of lines 130-137 with its column defaults, the store after the first
  commit, the catalog rows that pass the test of line 152, the rows that the second
  commit inserts for them, and the store after the second commit.  \<open>catalog_loads\<close>
  says that the test raises on no row of a catalog.
\<close>

definition new_pending :: "uuid \<Rightarrow> ComplianceRequirement \<Rightarrow> PendingMapping" where
  "new_pending sid q =
     \<lparr>p_ai_system_id = sid, p_requirement_id = r_id q, p_status = NOT_STARTED\<rparr>"

definition new_system_row :: "env \<Rightarrow> AISystemCreate \<Rightarrow> AISystem" where
  "new_system_row env system =
     \<lparr>s_id = uuid4 env 0, s_name = c_name system,
      s_description = c_description system,
      s_risk_category = c_risk_category system,
      s_organization = c_organization system,
      s_department = c_department system,
      s_owner_email = c_owner_email system,
      s_created_at = utcnow env, s_updated_at = utcnow env\<rparr>"

definition system_committed :: "env \<Rightarrow> AISystemCreate \<Rightarrow> db \<Rightarrow> db" where
  "system_committed env system d = d\<lparr>ai_systems := ai_systems d @ [new_system_row env system]\<rparr>"

definition applicable_requirements :: "env \<Rightarrow> RiskCategory \<Rightarrow> db \<Rightarrow> ComplianceRequirement list" where
  "applicable_requirements env R d =
     filter (\<lambda>q. requirement_applies env (risk_value R) q = Inr True)
       (compliance_requirements d)"

definition registration_records :: "env \<Rightarrow> AISystemCreate \<Rightarrow> db \<Rightarrow> RequirementMapping list" where
  "registration_records env system d =
     map (flush_mapping env)
       (enumerate 0 (map (new_pending (uuid4 env 0))
          (applicable_requirements env (c_risk_category system) d)))"

definition records_committed :: "env \<Rightarrow> AISystemCreate \<Rightarrow> db \<Rightarrow> db" where
  "records_committed env system d =
     (system_committed env system d)
       \<lparr>requirement_mappings := requirement_mappings d @ registration_records env system d\<rparr>"

definition catalog_loads :: "env \<Rightarrow> string \<Rightarrow> ComplianceRequirement list \<Rightarrow> bool" where
  "catalog_loads env risk reqs = list_all (\<lambda>q. \<not> isl (requirement_applies env risk q)) reqs"

text \<open>
  Whether an update assigns a value that differs from the stored one.
\<close>

definition net_change :: "RequirementMapping \<Rightarrow> RequirementStatusUpdate \<Rightarrow> bool" where
  "net_change m upd =
     (u_status upd \<noteq> m_status m
      \<or> (case u_notes upd of None \<Rightarrow> False | Some n \<Rightarrow> m_notes m \<noteq> Some n)
      \<or> (case u_updated_by upd of None \<Rightarrow> False | Some b \<Rightarrow> m_updated_by m \<noteq> Some b))"

text \<open>
  The expression of lines 330 and 337 on two integers: the quotient, times 100,
  rounded to two decimals, each step in binary64 arithmetic.
\<close>

definition completion_percentage :: "int \<Rightarrow> int \<Rightarrow> rat" where
  "completion_percentage completed n =
     py_round (float_mul (float_round (of_int completed / of_int n)) 100) 2"

text \<open>The float that line 330 computes, before line 337 rounds it.\<close>

definition float_percentage :: "int \<Rightarrow> int \<Rightarrow> rat" where
  "float_percentage completed n = float_mul (float_round (of_int completed / of_int n)) 100"

text \<open>A record with the values of an update request assigned (lines 376-380).\<close>

definition assigned :: "RequirementMapping \<Rightarrow> RequirementStatusUpdate \<Rightarrow> RequirementMapping" where
  "assigned m upd =
     m\<lparr>m_status := u_status upd,
       m_notes := (case u_notes upd of None \<Rightarrow> m_notes m | Some n \<Rightarrow> Some n),
       m_updated_by := (case u_updated_by upd of None \<Rightarrow> m_updated_by m | Some b \<Rightarrow> Some b)\<rparr>"

text \<open>
  The mapping rows of a later store that an earlier store did not have yet (rows are
  appended), and the integrity conditions of the store: the three primary keys, the
  reference of every mapping to a stored system, and one mapping per pair of system
  and requirement.
\<close>

definition created_records :: "db \<Rightarrow> db \<Rightarrow> RequirementMapping list" where
  "created_records d d' = drop (length (requirement_mappings d)) (requirement_mappings d')"

definition store_invariant :: "db \<Rightarrow> bool" where
  "store_invariant d =
     (distinct (map r_id (compliance_requirements d))
      \<and> distinct (map s_id (ai_systems d))
      \<and> distinct (map m_id (requirement_mappings d))
      \<and> set (map m_ai_system_id (requirement_mappings d)) \<subseteq> set (map s_id (ai_systems d))
      \<and> distinct (map (\<lambda>m. (m_ai_system_id m, m_requirement_id m)) (requirement_mappings d)))"

subsection \<open>Example data\<close>

text \<open>
  A catalog of five requirements, an excerpt of \<^verbatim>\<open>json.loads\<close> on the column texts
  that occur in it, and an environment whose \<open>k\<close>-th identifier is \<open>id-\<close> followed by
  \<open>k\<close> letters.
\<close>

definition example_loads :: "string \<Rightarrow> py_error + json" where
  \<open>example_loads s =
     (case map_of
        [(''["high"]'', JList [JStr ''high'']),
         (''["high", "limited"]'', JList [JStr ''high'', JStr ''limited'']),
         (''["unacceptable"]'', JList [JStr ''unacceptable''])] s of
        Some v \<Rightarrow> Inr v
      | None \<Rightarrow> Inl JSONDecodeError)\<close>

definition example_env :: env where
  "example_env =
     \<lparr>uuid4 = (\<lambda>k. ''id-'' @ replicate k CHR ''x''), utcnow = 2,
      json_loads = example_loads, catalog_query_error = None\<rparr>"

definition example_requirement :: "uuid \<Rightarrow> string \<Rightarrow> string \<Rightarrow> ComplianceRequirement" where
  "example_requirement qid title applies =
     \<lparr>r_id = qid, r_article = ''Article'', r_title = title, r_description = title,
      r_applies_to = applies\<rparr>"

definition example_catalog :: "ComplianceRequirement list" where
  \<open>example_catalog =
     [example_requirement ''req-9'' ''Risk management'' ''["high"]'',
      example_requirement ''req-10'' ''Data governance'' ''["high"]'',
      example_requirement ''req-14'' ''Human oversight'' ''["high"]'',
      example_requirement ''req-50'' ''Transparency'' ''["high", "limited"]'',
      example_requirement ''req-5'' ''Prohibited practices'' ''["unacceptable"]'']\<close>

definition example_seeded :: db where
  "example_seeded =
     \<lparr>ai_systems = [], compliance_requirements = example_catalog,
      requirement_mappings = []\<rparr>"

definition example_create :: "RiskCategory \<Rightarrow> AISystemCreate" where
  "example_create R =
     \<lparr>c_name = ''Scoring model'', c_description = None, c_risk_category = R,
      c_organization = None, c_department = None, c_owner_email = None\<rparr>"

definition example_system :: "RiskCategory \<Rightarrow> AISystem" where
  "example_system R =
     \<lparr>s_id = ''id-'', s_name = ''Scoring model'', s_description = None,
      s_risk_category = R, s_organization = None, s_department = None,
      s_owner_email = None, s_created_at = 2, s_updated_at = 2\<rparr>"

definition example_mapping :: "uuid \<Rightarrow> uuid \<Rightarrow> ComplianceStatus \<Rightarrow> RequirementMapping" where
  "example_mapping mid qid st =
     \<lparr>m_id = mid, m_ai_system_id = ''id-'', m_requirement_id = qid, m_status = st,
      m_notes = None, m_updated_by = None, m_created_at = 2, m_updated_at = 2\<rparr>"

text \<open>
  The store after a high-risk system was registered, the same store after three status
  updates, and the store after a minimal-risk system was registered.
\<close>

definition example_high :: db where
  "example_high =
     \<lparr>ai_systems = [example_system HIGH], compliance_requirements = example_catalog,
      requirement_mappings =
        [example_mapping ''id-x'' ''req-9'' NOT_STARTED,
         example_mapping ''id-xx'' ''req-10'' NOT_STARTED,
         example_mapping ''id-xxx'' ''req-14'' NOT_STARTED,
         example_mapping ''id-xxxx'' ''req-50'' NOT_STARTED]\<rparr>"

definition example_progress :: db where
  "example_progress =
     \<lparr>ai_systems = [example_system HIGH], compliance_requirements = example_catalog,
      requirement_mappings =
        [example_mapping ''id-x'' ''req-9'' COMPLETED,
         example_mapping ''id-xx'' ''req-10'' COMPLETED,
         example_mapping ''id-xxx'' ''req-14'' IN_PROGRESS,
         example_mapping ''id-xxxx'' ''req-50'' NOT_STARTED]\<rparr>"

text \<open>
  A store in which the system has 160 tracking records, the first 23 of them
  completed.
\<close>

definition example_many :: db where
  "example_many =
     \<lparr>ai_systems = [example_system HIGH], compliance_requirements = example_catalog,
      requirement_mappings =
        map (\<lambda>k. example_mapping (''id-'' @ replicate (Suc k) CHR ''x'')
                    (''req-'' @ replicate k CHR ''i'')
                    (if k < 23 then COMPLETED else NOT_STARTED))
          [0..<160]\<rparr>"

definition example_minimal :: db where
  "example_minimal =
     \<lparr>ai_systems = [example_system MINIMAL], compliance_requirements = example_catalog,
      requirement_mappings = []\<rparr>"

definition example_later :: env where
  "example_later = example_env\<lparr>utcnow := 7\<rparr>"

text \<open>
  An environment whose catalog query fails, the store after the first commit of the
  high-risk registration, and the seeded store with its catalog in reverse order.
\<close>

definition example_unreadable :: env where
  "example_unreadable = example_env\<lparr>catalog_query_error := Some OperationalError\<rparr>"

definition example_registered :: db where
  "example_registered =
     \<lparr>ai_systems = [example_system HIGH], compliance_requirements = example_catalog,
      requirement_mappings = []\<rparr>"

definition example_shuffled :: db where
  "example_shuffled =
     \<lparr>ai_systems = [], compliance_requirements = rev example_catalog,
      requirement_mappings = []\<rparr>"

lemmas example_defs =
  example_env_def example_loads_def example_catalog_def example_seeded_def
  example_create_def example_system_def example_mapping_def example_high_def
  example_minimal_def example_later_def example_requirement_def example_progress_def
  example_unreadable_def example_registered_def example_shuffled_def

section \<open>Properties\<close>

subsection \<open>Lookups and the status update\<close>

lemma find_absent: "x \<notin> set (map f xs) \<Longrightarrow> find (\<lambda>y. f y = x) xs = None"
  by (auto simp: find_None_iff)

lemma find_Some_id: "find (\<lambda>x. m_id x = mid) ms = Some m \<Longrightarrow> m_id m = mid"
  by (auto simp: find_Some_iff)

lemma find_map_update:
  "find (\<lambda>x. m_id x = mid) ms = Some m \<Longrightarrow> m_id row = mid \<Longrightarrow>
   find (\<lambda>x. m_id x = mid) (map (\<lambda>x. if m_id x = mid then row else x) ms) = Some row"
  by (induction ms) (auto split: if_splits)

lemma update_store:
  assumes "find (\<lambda>x. m_id x = mid) (requirement_mappings d) = Some m"
  shows "snd (update_requirement_status env mid upd d)
         = commit_update_mapping d (flush_update env m (assigned m upd))"
  using assms
  by (simp add: update_requirement_status_def Let_def assigned_def
      split: option.splits)

lemma update_row:
  assumes "find (\<lambda>x. m_id x = mid) (requirement_mappings d) = Some m"
  shows "find (\<lambda>x. m_id x = mid)
           (requirement_mappings (snd (update_requirement_status env mid upd d)))
         = Some (flush_update env m (assigned m upd))"
proof -
  have "m_id (flush_update env m (assigned m upd)) = mid"
    using find_Some_id [OF assms] by (simp add: flush_update_def assigned_def)
  then show ?thesis
    using assms by (simp add: update_store commit_update_mapping_def find_map_update)
qed

text \<open>
  C7.  A compliance summary or a system lookup for an identifier that no system row
  carries, and a status update for an identifier that no mapping row carries, return
  the 404 exception and the store they were given: nothing was written.
\<close>

theorem not_found_leaves_store:
  "(sid \<notin> set (map s_id (ai_systems d)) \<longrightarrow>
      get_system_compliance sid d = (Inl (HTTPException 404 ''AI system not found''), d)
      \<and> get_ai_system sid d = (Inl (HTTPException 404 ''AI system not found''), d))
   \<and> (mid \<notin> set (map m_id (requirement_mappings d)) \<longrightarrow>
      update_requirement_status env mid upd d
        = (Inl (HTTPException 404 ''Requirement mapping not found''), d))"
  by (simp add: get_system_compliance_def get_ai_system_def update_requirement_status_def
      find_absent)

theorem not_found_leaves_store_witness:
  "''nobody'' \<notin> set (map s_id (ai_systems example_high))
   \<and> ''nothing'' \<notin> set (map m_id (requirement_mappings example_high))
   \<and> get_system_compliance ''nobody'' example_high
        = (Inl (HTTPException 404 ''AI system not found''), example_high)
   \<and> get_ai_system ''nobody'' example_high
        = (Inl (HTTPException 404 ''AI system not found''), example_high)
   \<and> update_requirement_status example_env ''nothing''
        \<lparr>u_status = COMPLETED, u_notes = Some ''done'', u_updated_by = None\<rparr> example_high
        = (Inl (HTTPException 404 ''Requirement mapping not found''), example_high)"
proof -
  have a: "''nobody'' \<notin> set (map s_id (ai_systems example_high))"
    by (simp add: example_defs)
  have b: "''nothing'' \<notin> set (map m_id (requirement_mappings example_high))"
    by (simp add: example_defs)
  show ?thesis
    using a b
      not_found_leaves_store [of "''nobody''" example_high "''nothing''" example_env
        "\<lparr>u_status = COMPLETED, u_notes = Some ''done'', u_updated_by = None\<rparr>"]
    by blast
qed

text \<open>
  C6.  After a status update of an existing tracking record, the record found under
  the same identifier has the stored notes when the request carried none and the
  request's notes otherwise, likewise for the updater, the requested status, and the
  identifier, system reference, requirement reference and creation timestamp it had.
\<close>

theorem update_frame:
  assumes "find (\<lambda>x. m_id x = mid) (requirement_mappings d) = Some m"
  shows "\<exists>m'. find (\<lambda>x. m_id x = mid)
                (requirement_mappings (snd (update_requirement_status env mid upd d)))
              = Some m'
           \<and> m_notes m' = (case u_notes upd of None \<Rightarrow> m_notes m | Some n \<Rightarrow> Some n)
           \<and> m_updated_by m'
               = (case u_updated_by upd of None \<Rightarrow> m_updated_by m | Some b \<Rightarrow> Some b)
           \<and> m_status m' = u_status upd
           \<and> m_id m' = m_id m
           \<and> m_ai_system_id m' = m_ai_system_id m
           \<and> m_requirement_id m' = m_requirement_id m
           \<and> m_created_at m' = m_created_at m"
  unfolding update_row [OF assms]
  by (simp add: flush_update_def assigned_def split: option.splits)

theorem update_frame_witness:
  "find (\<lambda>x. m_id x = ''id-x'') (requirement_mappings example_high)
     = Some (example_mapping ''id-x'' ''req-9'' NOT_STARTED)
   \<and> (\<exists>m'. find (\<lambda>x. m_id x = ''id-x'')
              (requirement_mappings (snd (update_requirement_status example_later ''id-x''
                 \<lparr>u_status = IN_PROGRESS, u_notes = Some ''audit booked'',
                  u_updated_by = None\<rparr> example_high)))
            = Some m'
         \<and> m_notes m' = Some ''audit booked''
         \<and> m_updated_by m' = None
         \<and> m_status m' = IN_PROGRESS
         \<and> m_id m' = ''id-x''
         \<and> m_ai_system_id m' = ''id-''
         \<and> m_requirement_id m' = ''req-9''
         \<and> m_created_at m' = 2)"
proof -
  have h: "find (\<lambda>x. m_id x = ''id-x'') (requirement_mappings example_high)
             = Some (example_mapping ''id-x'' ''req-9'' NOT_STARTED)"
    by (simp add: example_high_def example_mapping_def)
  show ?thesis
    using h update_frame [OF h, of example_later
        "\<lparr>u_status = IN_PROGRESS, u_notes = Some ''audit booked'', u_updated_by = None\<rparr>"]
    by (simp add: example_mapping_def)
qed

text \<open>
  C8 fails for an update that assigns what is stored: with the clock at 7, repeating
  the status of a record last modified at 2, notes and updater left out, succeeds,
  reports 2 as the modification time and returns the store unchanged.
\<close>

theorem noop_update_keeps_timestamp:
  "update_requirement_status example_later ''id-x''
     \<lparr>u_status = NOT_STARTED, u_notes = None, u_updated_by = None\<rparr> example_high
   = (Inr \<lparr>o_mapping_id = ''id-x'', o_requirement_id = ''req-9'',
           o_article = ''Article'', o_title = ''Risk management'',
           o_old_status = ''not_started'', o_new_status = ''not_started'',
           o_notes = None, o_updated_by = None, o_updated_at = 2\<rparr>,
      example_high)
   \<and> utcnow example_later = 7"
  by (simp add: update_requirement_status_def flush_update_def commit_update_mapping_def
      example_defs)

text \<open>
  C8, amended.  A status update of an existing tracking record whose requirement is in
  the catalog succeeds; the stored record's last-modified timestamp is the current
  time when the update changes the status, the notes or the updater, and is the
  previous timestamp otherwise; the response carries that timestamp, the old status
  and the new status.
\<close>

theorem update_timestamp:
  assumes "find (\<lambda>x. m_id x = mid) (requirement_mappings d) = Some m"
    and "find (\<lambda>r. r_id r = m_requirement_id m) (compliance_requirements d) = Some q"
  shows "\<exists>resp d' m'.
           update_requirement_status env mid upd d = (Inr resp, d')
           \<and> find (\<lambda>x. m_id x = mid) (requirement_mappings d') = Some m'
           \<and> m_updated_at m' = (if net_change m upd then utcnow env else m_updated_at m)
           \<and> o_updated_at resp = m_updated_at m'
           \<and> o_old_status resp = status_value (m_status m)
           \<and> o_new_status resp = status_value (u_status upd)"
proof -
  let ?row = "flush_update env m (assigned m upd)"
  have req: "m_requirement_id ?row = m_requirement_id m"
    by (simp add: flush_update_def assigned_def)
  have st: "m_status ?row = u_status upd"
    by (simp add: flush_update_def assigned_def)
  have ts: "m_updated_at ?row = (if net_change m upd then utcnow env else m_updated_at m)"
    by (auto simp: flush_update_def assigned_def net_change_def split: option.splits)
  have run: "update_requirement_status env mid upd d
       = (Inr \<lparr>o_mapping_id = m_id ?row, o_requirement_id = r_id q,
               o_article = r_article q, o_title = r_title q,
               o_old_status = status_value (m_status m),
               o_new_status = status_value (m_status ?row),
               o_notes = m_notes ?row, o_updated_by = m_updated_by ?row,
               o_updated_at = m_updated_at ?row\<rparr>,
          commit_update_mapping d ?row)"
    using assms req
    by (simp add: update_requirement_status_def Let_def assigned_def commit_update_mapping_def
        split: option.splits)
  have row: "find (\<lambda>x. m_id x = mid)
               (requirement_mappings (commit_update_mapping d ?row)) = Some ?row"
    using update_row [OF assms(1), of env upd] by (simp add: run)
  show ?thesis
    unfolding run using row st ts by simp
qed

theorem update_timestamp_witness:
  "find (\<lambda>x. m_id x = ''id-xx'') (requirement_mappings example_high)
     = Some (example_mapping ''id-xx'' ''req-10'' NOT_STARTED)
   \<and> find (\<lambda>r. r_id r = ''req-10'') (compliance_requirements example_high)
     = Some (example_catalog ! 1)
   \<and> (\<exists>resp d' m'.
        update_requirement_status example_later ''id-xx''
          \<lparr>u_status = COMPLETED, u_notes = None, u_updated_by = None\<rparr> example_high
          = (Inr resp, d')
        \<and> find (\<lambda>x. m_id x = ''id-xx'') (requirement_mappings d') = Some m'
        \<and> m_updated_at m' = 7
        \<and> o_updated_at resp = 7
        \<and> o_old_status resp = ''not_started''
        \<and> o_new_status resp = ''completed'')"
proof -
  let ?m = "example_mapping ''id-xx'' ''req-10'' NOT_STARTED"
  let ?upd = "\<lparr>u_status = COMPLETED, u_notes = None, u_updated_by = None\<rparr>"
  have h1: "find (\<lambda>x. m_id x = ''id-xx'') (requirement_mappings example_high) = Some ?m"
    by (simp add: example_high_def example_mapping_def)
  have h2: "find (\<lambda>r. r_id r = m_requirement_id ?m) (compliance_requirements example_high)
              = Some (example_catalog ! 1)"
    by (simp add: example_high_def example_mapping_def example_catalog_def
        example_requirement_def)
  have n: "net_change ?m ?upd"
    by (simp add: net_change_def example_mapping_def)
  have r: "m_requirement_id ?m = ''req-10''"
    by (simp add: example_mapping_def)
  have s: "m_status ?m = NOT_STARTED"
    by (simp add: example_mapping_def)
  have t: "utcnow example_later = 7"
    by (simp add: example_later_def)
  from update_timestamp [OF h1 h2, of example_later ?upd]
  obtain resp d' m' where
    "update_requirement_status example_later ''id-xx'' ?upd example_high = (Inr resp, d')"
    "find (\<lambda>x. m_id x = ''id-xx'') (requirement_mappings d') = Some m'"
    "m_updated_at m' = 7" "o_updated_at resp = 7"
    "o_old_status resp = ''not_started''" "o_new_status resp = ''completed''"
    using n s t by auto
  then show ?thesis
    using h1 h2 r by auto
qed

subsection \<open>Accuracy of the binary64 operations\<close>

text \<open>
  \<open>floor_log2\<close> finds the binade of a positive rational, so \<open>float_round\<close> is off by at
  most half a unit in the last place; the percentage of lines 330 and 337 is therefore
  within half a hundredth, plus a rounding term below \<open>10\<^sup>-\<^sup>1\<^sup>2\<close>, of the exact
  quotient times 100.
\<close>

lemma pow2_powi: "pow2 e = 2 powi e"
  by (simp add: pow2_def power_int_def field_simps)

lemma pow2_pos: "0 < pow2 e"
  by (simp add: pow2_powi)

lemma pow2_add: "pow2 (a + b) = pow2 a * pow2 b"
  by (simp add: pow2_powi power_int_add)

lemma pow2_mono: "a \<le> b \<Longrightarrow> pow2 a \<le> pow2 b"
  by (simp add: pow2_powi power_int_increasing)

lemma pow2_nat: "pow2 (int n) = 2 ^ n"
  by (simp add: pow2_def)

lemma pow2_neg_nat: "pow2 (- int n) = 1 / 2 ^ n"
  by (simp add: pow2_powi power_int_minus divide_inverse)

lemma bit_length_bounds:
  "0 < n \<Longrightarrow> 2 ^ (bit_length n - 1) \<le> n \<and> n < 2 ^ bit_length n"
proof (induction n rule: bit_length.induct)
  case (1 n)
  show ?case
  proof (cases "n div 2 \<le> 0")
    case True
    then have "n = 1"
      using "1.prems" by linarith
    then show ?thesis
      by (simp add: bit_length.simps [of 1] bit_length.simps [of 0])
  next
    case False
    then have pos: "0 < n div 2" by simp
    have bl: "bit_length n = Suc (bit_length (n div 2))"
      using "1.prems" by (simp add: bit_length.simps [of n])
    have ih: "2 ^ (bit_length (n div 2) - 1) \<le> n div 2 \<and> n div 2 < 2 ^ bit_length (n div 2)"
      using "1.IH" "1.prems" pos by simp
    have nz: "bit_length (n div 2) \<noteq> 0"
      using pos by (simp add: bit_length.simps [of "n div 2"])
    then have sp: "(2::int) ^ bit_length (n div 2) = 2 * 2 ^ (bit_length (n div 2) - 1)"
      by (cases "bit_length (n div 2)") simp_all
    have "2 ^ bit_length (n div 2) \<le> 2 * (n div 2)"
      using ih sp by linarith
    moreover have "2 * (n div 2) \<le> n" by simp
    moreover have "n < 2 * (n div 2) + 2" by linarith
    moreover have "2 * (n div 2) + 2 \<le> 2 * 2 ^ bit_length (n div 2)"
      using ih by linarith
    ultimately show ?thesis
      unfolding bl by simp
  qed
qed

lemma floor_log2_bounds:
  assumes "0 < q"
  shows "pow2 (floor_log2 q) \<le> q \<and> q < pow2 (floor_log2 q + 1)"
proof -
  obtain a b where ab: "quotient_of q = (a, b)"
    by (cases "quotient_of q")
  have b: "0 < b"
    using quotient_of_denom_pos [OF ab] .
  have q: "q = of_int a / of_int b"
    using quotient_of_div [OF ab] .
  have a: "0 < a"
    using assms b unfolding q by (simp add: zero_less_divide_iff)
  let ?la = "bit_length a" and ?lb = "bit_length b"
  define d where "d = int ?la - int ?lb"
  have la: "?la \<noteq> 0" and lb: "?lb \<noteq> 0"
    using a b by (simp_all add: bit_length.simps [of a] bit_length.simps [of b])
  have ba: "(2::rat) ^ (?la - 1) \<le> of_int a" "(of_int a :: rat) < 2 ^ ?la"
    and bb: "(2::rat) ^ (?lb - 1) \<le> of_int b" "(of_int b :: rat) < 2 ^ ?lb"
  proof -
    have "of_int (2 ^ (?la - 1)) \<le> (of_int a :: rat)" "(of_int a :: rat) < of_int (2 ^ ?la)"
      "of_int (2 ^ (?lb - 1)) \<le> (of_int b :: rat)" "(of_int b :: rat) < of_int (2 ^ ?lb)"
      using bit_length_bounds [OF a] bit_length_bounds [OF b]
      unfolding of_int_le_iff of_int_less_iff by simp_all
    then show "(2::rat) ^ (?la - 1) \<le> of_int a" "(of_int a :: rat) < 2 ^ ?la"
      "(2::rat) ^ (?lb - 1) \<le> of_int b" "(of_int b :: rat) < 2 ^ ?lb"
      by simp_all
  qed
  have upper: "q < pow2 (d + 1)"
  proof -
    have "of_int a * 2 ^ (?lb - 1) \<le> (of_int a :: rat) * of_int b"
      using bb(1) a by (intro mult_left_mono) simp_all
    also have "\<dots> < 2 ^ ?la * of_int b"
      using ba(2) b by (intro mult_strict_right_mono) simp_all
    finally have "of_int a * 2 ^ (?lb - 1) < (2::rat) ^ ?la * of_int b" .
    then have "q < 2 ^ ?la / 2 ^ (?lb - 1)"
      unfolding q using b by (simp add: divide_simps mult.commute)
    also have "\<dots> = pow2 (int ?la) * pow2 (- int (?lb - 1))"
      unfolding pow2_nat pow2_neg_nat by simp
    also have "\<dots> = pow2 (d + 1)"
    proof -
      obtain k where "?lb = Suc k"
        using lb by (cases ?lb) auto
      then have "int ?la + - int (?lb - 1) = d + 1"
        by (simp add: d_def)
      then show ?thesis
        unfolding pow2_add [symmetric] by (simp only:)
    qed
    finally show ?thesis .
  qed
  have lower: "pow2 (d - 1) \<le> q"
  proof -
    have "(2::rat) ^ (?la - 1) * of_int b \<le> of_int a * of_int b"
      using ba(1) b by (intro mult_right_mono) simp_all
    also have "\<dots> \<le> of_int a * 2 ^ ?lb"
      using bb(2) a by (intro mult_left_mono) simp_all
    finally have "(2::rat) ^ (?la - 1) * of_int b \<le> of_int a * 2 ^ ?lb" .
    then have "2 ^ (?la - 1) / 2 ^ ?lb \<le> q"
      unfolding q using b by (simp add: divide_simps mult.commute)
    moreover have "2 ^ (?la - 1) / 2 ^ ?lb = pow2 (int (?la - 1)) * pow2 (- int ?lb)"
      unfolding pow2_nat pow2_neg_nat by simp
    moreover have "\<dots> = pow2 (d - 1)"
    proof -
      obtain k where "?la = Suc k"
        using la by (cases ?la) auto
      then have "int (?la - 1) + - int ?lb = d - 1"
        by (simp add: d_def)
      then show ?thesis
        unfolding pow2_add [symmetric] by (simp only:)
    qed
    ultimately show ?thesis by simp
  qed
  have fl: "floor_log2 q = (if pow2 d \<le> q then d else d - 1)"
    by (simp add: floor_log2_def ab d_def Let_def)
  show ?thesis
  proof (cases "pow2 d \<le> q")
    case True
    then show ?thesis using upper fl by simp
  next
    case False
    then show ?thesis using lower fl by simp
  qed
qed

lemma round_half_even_error: "\<bar>of_int (round_half_even x) - x\<bar> \<le> 1 / 2"
proof -
  have "of_int \<lfloor>x\<rfloor> \<le> x" "x < of_int \<lfloor>x\<rfloor> + 1"
    by linarith+
  then show ?thesis
    by (auto simp: round_half_even_def Let_def)
qed

lemma float_round_error:
  "\<bar>float_round q - q\<bar> \<le> pow2 (- 53) * \<bar>q\<bar> + pow2 (- 1075)"
proof (cases "q = 0")
  case True
  then show ?thesis
    using pow2_pos [of "- 1075"] by (simp add: float_round_def)
next
  case False
  define e where "e = max (floor_log2 \<bar>q\<bar>) (- 1022)"
  define u where "u = pow2 (e - 52)"
  have u: "0 < u" by (simp add: u_def pow2_pos)
  have fl: "float_round q = of_int (round_half_even (q / u)) * u"
    using False by (simp add: float_round_def e_def u_def Let_def)
  have "float_round q - q = (of_int (round_half_even (q / u)) - q / u) * u"
    unfolding fl using u by (simp add: left_diff_distrib)
  then have "\<bar>float_round q - q\<bar> = \<bar>of_int (round_half_even (q / u)) - q / u\<bar> * u"
    using u by (simp add: abs_mult)
  also have "\<dots> \<le> 1 / 2 * u"
    using round_half_even_error [of "q / u"] u by (intro mult_right_mono) simp_all
  also have "\<dots> = pow2 (e - 53)"
    using pow2_add [of "e - 53" 1] by (simp add: u_def pow2_powi)
  finally have err: "\<bar>float_round q - q\<bar> \<le> pow2 (e - 53)" .
  show ?thesis
  proof (cases "floor_log2 \<bar>q\<bar> \<le> - 1022")
    case True
    then have "e = - 1022" by (simp add: e_def)
    then have "pow2 (e - 53) = pow2 (- 1075)" by simp
    moreover have "0 \<le> pow2 (- 53) * \<bar>q\<bar>"
      using pow2_pos [of "- 53"] by simp
    ultimately show ?thesis using err by linarith
  next
    case False
    then have "e = floor_log2 \<bar>q\<bar>" by (simp add: e_def)
    then have "pow2 (e - 53) = pow2 (- 53) * pow2 (floor_log2 \<bar>q\<bar>)"
      using pow2_add [of "- 53" "floor_log2 \<bar>q\<bar>"] by (simp add: add.commute)
    moreover have "pow2 (floor_log2 \<bar>q\<bar>) \<le> \<bar>q\<bar>"
      using floor_log2_bounds [of "\<bar>q\<bar>"] \<open>q \<noteq> 0\<close> by simp
    then have "pow2 (- 53) * pow2 (floor_log2 \<bar>q\<bar>) \<le> pow2 (- 53) * \<bar>q\<bar>"
      using pow2_pos [of "- 53"] by (intro mult_left_mono) simp_all
    moreover have "0 < pow2 (- 1075)" by (rule pow2_pos)
    ultimately show ?thesis using err by linarith
  qed
qed

lemma float_round_error_le:
  assumes "\<bar>q\<bar> \<le> B"
  shows "\<bar>float_round q - q\<bar> \<le> pow2 (- 53) * B + pow2 (- 53)"
proof -
  have "pow2 (- 53) * \<bar>q\<bar> \<le> pow2 (- 53) * B"
    using assms pow2_pos [of "- 53"] by (intro mult_left_mono) simp_all
  moreover have "pow2 (- 1075) \<le> pow2 (- 53)"
    by (rule pow2_mono) simp
  ultimately show ?thesis
    using float_round_error [of q] by linarith
qed

lemma completion_percentage_accuracy:
  assumes "0 \<le> c" and "c \<le> n" and "0 < n"
  shows "\<bar>completion_percentage c n - 100 * of_int c / of_int n\<bar> \<le> 1 / 200 + 1 / 10 ^ 12"
proof -
  define eps where "eps = pow2 (- 53)"
  define q :: rat where "q = of_int c / of_int n"
  define y1 where "y1 = float_round q"
  define y2 where "y2 = float_round (y1 * 100)"
  define z :: rat where "z = of_int (round_half_even (y2 * 100)) / 100"
  define p where "p = float_round z"
  have p: "completion_percentage c n = p"
    by (simp add: completion_percentage_def py_round_def float_mul_def p_def z_def y2_def
        y1_def q_def)
  have eps: "eps = 1 / 9007199254740992"
    using pow2_neg_nat [of 53] by (simp add: eps_def)
  have q: "0 \<le> q" "q \<le> 1"
    using assms by (simp_all add: q_def)
  have e1: "\<bar>y1 - q\<bar> \<le> eps * 1 + eps"
    unfolding y1_def eps_def using q by (intro float_round_error_le) simp
  then have b1: "\<bar>y1 * 100\<bar> \<le> 200"
    using q unfolding eps by linarith
  have e2: "\<bar>y2 - y1 * 100\<bar> \<le> eps * 200 + eps"
    unfolding y2_def eps_def using b1 by (rule float_round_error_le)
  have e3: "\<bar>z - y2\<bar> \<le> 1 / 200"
    using round_half_even_error [of "y2 * 100"] unfolding z_def by linarith
  have b3: "\<bar>z\<bar> \<le> 300"
    using e3 e2 b1 unfolding eps by linarith
  have e4: "\<bar>p - z\<bar> \<le> eps * 300 + eps"
    unfolding p_def eps_def using b3 by (rule float_round_error_le)
  have "\<bar>p - 100 * q\<bar> \<le> 1 / 200 + 1 / 1000000000000"
    using e1 e2 e3 e4 unfolding eps by linarith
  then show ?thesis
    by (simp add: p q_def)
qed

lemma count_status_range: "0 \<le> count_status st ms \<and> count_status st ms \<le> int (length ms)"
  by (simp add: count_status_def)

subsection \<open>The compliance summary\<close>

lemma count_status_Cons:
  "count_status st (m # ms) = (if m_status m = st then 1 else 0) + count_status st ms"
  by (simp add: count_status_def)

lemma count_statuses_result:
  "count_statuses ms
     [(''not_started'', a), (''in_progress'', b), (''completed'', c), (''non_compliant'', e)]
   = Inr [(''not_started'', a + count_status NOT_STARTED ms),
          (''in_progress'', b + count_status IN_PROGRESS ms),
          (''completed'', c + count_status COMPLETED ms),
          (''non_compliant'', e + count_status NON_COMPLIANT ms)]"
proof (induction ms arbitrary: a b c e)
  case Nil
  show ?case by (simp add: count_status_def)
next
  case (Cons m ms)
  show ?case
    by (cases "m_status m") (simp_all add: dict_incr_def Cons.IH count_status_Cons)
qed

lemma count_status_total:
  "count_status NOT_STARTED ms + count_status IN_PROGRESS ms
     + count_status COMPLETED ms + count_status NON_COMPLIANT ms = int (length ms)"
proof (induction ms)
  case Nil
  show ?case by (simp add: count_status_def)
next
  case (Cons m ms)
  then show ?case by (cases "m_status m") (simp_all add: count_status_Cons)
qed

lemma summarize_nonempty:
  assumes "ms \<noteq> []"
  shows "summarize sid sys ms =
     Inr \<lparr>system_id = sid, system_name = s_name sys,
          risk_category = risk_value (s_risk_category sys),
          total_requirements = int (length ms),
          compliance_percentage =
            PyFloat (completion_percentage (count_status COMPLETED ms) (int (length ms))),
          status_breakdown =
            [(''not_started'', count_status NOT_STARTED ms),
             (''in_progress'', count_status IN_PROGRESS ms),
             (''completed'', count_status COMPLETED ms),
             (''non_compliant'', count_status NON_COMPLIANT ms)],
          requirements_completed = Some (count_status COMPLETED ms),
          requirements_in_progress = Some (count_status IN_PROGRESS ms),
          requirements_not_started = Some (count_status NOT_STARTED ms),
          requirements_non_compliant = Some (count_status NON_COMPLIANT ms)\<rparr>"
  using assms
  by (simp add: summarize_def count_statuses_result sum_bind_def dict_get_def int_truediv_def
      completion_percentage_def)

lemma summary_nonempty:
  assumes "find (\<lambda>s. s_id s = sid) (ai_systems d) = Some sys"
    and "mappings_of sid d \<noteq> []"
  shows "get_system_compliance sid d =
     (Inr \<lparr>system_id = sid, system_name = s_name sys,
          risk_category = risk_value (s_risk_category sys),
          total_requirements = int (length (mappings_of sid d)),
          compliance_percentage =
            PyFloat (completion_percentage (count_status COMPLETED (mappings_of sid d))
                       (int (length (mappings_of sid d)))),
          status_breakdown =
            [(''not_started'', count_status NOT_STARTED (mappings_of sid d)),
             (''in_progress'', count_status IN_PROGRESS (mappings_of sid d)),
             (''completed'', count_status COMPLETED (mappings_of sid d)),
             (''non_compliant'', count_status NON_COMPLIANT (mappings_of sid d))],
          requirements_completed = Some (count_status COMPLETED (mappings_of sid d)),
          requirements_in_progress = Some (count_status IN_PROGRESS (mappings_of sid d)),
          requirements_not_started = Some (count_status NOT_STARTED (mappings_of sid d)),
          requirements_non_compliant = Some (count_status NON_COMPLIANT (mappings_of sid d))\<rparr>, d)"
  using assms summarize_nonempty [of "mappings_of sid d" sid sys]
  by (simp add: get_system_compliance_def mappings_of_def)

lemma percentage_half: "completion_percentage 2 4 = 50"
  by code_simp

lemma count_status_map:
  "count_status st ms = int (length (filter (\<lambda>s. s = st) (map m_status ms)))"
  by (simp add: count_status_def filter_map o_def)

lemma summary_empty:
  assumes "find (\<lambda>s. s_id s = sid) (ai_systems d) = Some sys"
    and "mappings_of sid d = []"
  shows "get_system_compliance sid d =
     (Inr \<lparr>system_id = sid, system_name = s_name sys,
          risk_category = risk_value (s_risk_category sys),
          total_requirements = 0, compliance_percentage = PyInt 0,
          status_breakdown = [],
          requirements_completed = None, requirements_in_progress = None,
          requirements_not_started = None, requirements_non_compliant = None\<rparr>, d)"
  using assms by (simp add: get_system_compliance_def mappings_of_def summarize_def)

lemma example_system_found:
  "find (\<lambda>s. s_id s = ''id-'') (ai_systems example_progress) = Some (example_system HIGH)"
  "find (\<lambda>s. s_id s = ''id-'') (ai_systems example_minimal) = Some (example_system MINIMAL)"
  by (simp_all add: example_progress_def example_minimal_def example_system_def)

lemma example_progress_mappings:
  "mappings_of ''id-'' example_progress = requirement_mappings example_progress"
  by (simp add: mappings_of_def example_progress_def example_mapping_def)

lemma example_progress_statuses:
  "map m_status (requirement_mappings example_progress)
     = [COMPLETED, COMPLETED, IN_PROGRESS, NOT_STARTED]"
  by (simp add: example_progress_def example_mapping_def)

lemma completion_percentage_rounds:
  "completion_percentage c n
   = float_round (of_int (round_half_even (float_percentage c n * 100)) / 100)"
  by (simp add: completion_percentage_def float_percentage_def py_round_def)

lemma round_half_even_tie:
  assumes "\<bar>of_int (round_half_even x) - x\<bar> = 1 / 2"
  shows "even (round_half_even x)"
proof -
  have fl: "of_int \<lfloor>x\<rfloor> \<le> x" "x < of_int \<lfloor>x\<rfloor> + 1"
    by linarith+
  show ?thesis
  proof (cases "x - of_int \<lfloor>x\<rfloor> = 1 / 2")
    case True
    then show ?thesis
      by (simp add: round_half_even_def Let_def)
  next
    case False
    then have "\<bar>of_int (round_half_even x) - x\<bar> \<noteq> 1 / 2"
      using fl by (auto simp: round_half_even_def Let_def)
    then show ?thesis
      using assms by simp
  qed
qed

lemma float_percentage_accuracy:
  assumes "0 \<le> c" and "c \<le> n" and "0 < n"
  shows "\<bar>float_percentage c n - 100 * of_int c / of_int n\<bar> \<le> 1 / 10 ^ 12"
proof -
  define eps where "eps = pow2 (- 53)"
  define q :: rat where "q = of_int c / of_int n"
  define y1 where "y1 = float_round q"
  define y2 where "y2 = float_round (y1 * 100)"
  have y: "float_percentage c n = y2"
    by (simp add: float_percentage_def float_mul_def y2_def y1_def q_def)
  have eps: "eps = 1 / 9007199254740992"
    using pow2_neg_nat [of 53] by (simp add: eps_def)
  have q: "0 \<le> q" "q \<le> 1"
    using assms by (simp_all add: q_def)
  have e1: "\<bar>y1 - q\<bar> \<le> eps * 1 + eps"
    unfolding y1_def eps_def using q by (intro float_round_error_le) simp
  then have b1: "\<bar>y1 * 100\<bar> \<le> 200"
    using q unfolding eps by linarith
  have e2: "\<bar>y2 - y1 * 100\<bar> \<le> eps * 200 + eps"
    unfolding y2_def eps_def using b1 by (rule float_round_error_le)
  have "\<bar>y2 - 100 * q\<bar> \<le> 1 / 1000000000000"
    using e1 e2 unfolding eps by linarith
  then show ?thesis
    by (simp add: y q_def)
qed

lemma percentage_rounded:
  "\<exists>k. completion_percentage c n = float_round (of_int k / 100)
       \<and> \<bar>of_int k / 100 - float_percentage c n\<bar> \<le> 1 / 200
       \<and> (\<bar>of_int k / 100 - float_percentage c n\<bar> = 1 / 200 \<longrightarrow> even k)"
proof -
  let ?y = "float_percentage c n"
  let ?k = "round_half_even (?y * 100)"
  have eq: "of_int ?k / 100 - ?y = (of_int ?k - ?y * 100) / 100"
    by (simp add: diff_divide_distrib)
  have d: "\<bar>of_int ?k / 100 - ?y\<bar> = \<bar>of_int ?k - ?y * 100\<bar> / 100"
    unfolding eq by (simp only: abs_divide abs_numeral)
  have "\<bar>of_int ?k / 100 - ?y\<bar> \<le> 1 / 200"
    using round_half_even_error [of "?y * 100"] unfolding d by simp
  moreover have "even ?k" if "\<bar>of_int ?k / 100 - ?y\<bar> = 1 / 200"
    using that unfolding d by (intro round_half_even_tie) simp
  ultimately show ?thesis
    using completion_percentage_rounds [of c n] by blast
qed

lemma length_filter_less_upt: "length (filter (\<lambda>k. k < a) [0..<b]) = min a b"
  by (induction b) auto

lemma example_many_mappings:
  "mappings_of ''id-'' example_many = requirement_mappings example_many"
  by (simp add: mappings_of_def example_many_def example_mapping_def filter_map o_def)

lemma example_many_counts:
  "length (requirement_mappings example_many) = 160"
  "count_status COMPLETED (requirement_mappings example_many) = 23"
  "count_status IN_PROGRESS (requirement_mappings example_many) = 0"
  "count_status NOT_STARTED (requirement_mappings example_many) = 137"
  "count_status NON_COMPLIANT (requirement_mappings example_many) = 0"
proof -
  let ?ms = "requirement_mappings example_many"
  show len: "length ?ms = 160"
    by (simp add: example_many_def)
  have st: "map m_status ?ms
            = map (\<lambda>k. if k < 23 then COMPLETED else NOT_STARTED) [0..<160]"
    by (simp add: example_many_def example_mapping_def o_def)
  have "length (filter (\<lambda>s. s = COMPLETED) (map m_status ?ms))
        = length (filter (\<lambda>k. k < 23) [0..<160])"
    unfolding st by (simp add: filter_map o_def)
  then show c: "count_status COMPLETED ?ms = 23"
    by (simp add: count_status_map length_filter_less_upt)
  have "filter (\<lambda>s. s = IN_PROGRESS) (map m_status ?ms) = []"
    unfolding st by (auto simp: filter_empty_conv)
  then show i: "count_status IN_PROGRESS ?ms = 0"
    by (simp add: count_status_map)
  have "filter (\<lambda>s. s = NON_COMPLIANT) (map m_status ?ms) = []"
    unfolding st by (auto simp: filter_empty_conv)
  then show x: "count_status NON_COMPLIANT ?ms = 0"
    by (simp add: count_status_map)
  show "count_status NOT_STARTED ?ms = 137"
    using count_status_total [of ?ms] len c i x by simp
qed

lemma example_many_found:
  "find (\<lambda>s. s_id s = ''id-'') (ai_systems example_many) = Some (example_system HIGH)"
  by (simp add: example_many_def example_system_def)

lemma percentage_23_of_160:
  "float_percentage 23 160 = 8092405580431359 / 562949953421312"
  "completion_percentage 23 160 = float_round (1437 / 100)"
  "float_round (1437 / 100) = 8089590830664253 / 562949953421312"
  "float_round (1438 / 100) = 8095220330198467 / 562949953421312"
  "round_half_even (100 * 23 / 160 * 100) = 1438"
  by code_simp+

lemma example_many_summary:
  "get_system_compliance ''id-'' example_many
   = (Inr \<lparr>system_id = ''id-'', system_name = ''Scoring model'', risk_category = ''high'',
           total_requirements = 160,
           compliance_percentage = PyFloat (float_round (1437 / 100)),
           status_breakdown =
             [(''not_started'', 137), (''in_progress'', 0), (''completed'', 23),
              (''non_compliant'', 0)],
           requirements_completed = Some 23, requirements_in_progress = Some 0,
           requirements_not_started = Some 137, requirements_non_compliant = Some 0\<rparr>,
      example_many)"
proof -
  have ne: "mappings_of ''id-'' example_many \<noteq> []"
    using example_many_counts(1) by (auto simp: example_many_mappings)
  show ?thesis
    unfolding summary_nonempty [OF example_many_found ne]
    by (simp add: example_many_mappings example_many_counts percentage_23_of_160(2)
        example_system_def)
qed

text \<open>
  C3 fails on the percentage.  With 23 of 160 records completed the exact percentage
  is 14.375, which rounds to 14.38 (to even and half up alike).  The float product of
  line 330 lies just below 14.375, and the summary reports the float of 14.37.
\<close>

theorem summary_percentage_not_exact_rounding:
  "get_system_compliance ''id-'' example_many
   = (Inr \<lparr>system_id = ''id-'', system_name = ''Scoring model'', risk_category = ''high'',
           total_requirements = 160,
           compliance_percentage = PyFloat (float_round (1437 / 100)),
           status_breakdown =
             [(''not_started'', 137), (''in_progress'', 0), (''completed'', 23),
              (''non_compliant'', 0)],
           requirements_completed = Some 23, requirements_in_progress = Some 0,
           requirements_not_started = Some 137, requirements_non_compliant = Some 0\<rparr>,
      example_many)
   \<and> (23 / 160 * 100 :: rat) = 14375 / 1000
   \<and> round_half_even (23 / 160 * 100 * 100) = 1438
   \<and> float_round (1437 / 100) \<noteq> float_round (1438 / 100)"
proof -
  have "(23 / 160 * 100 :: rat) = 14375 / 1000"
    by simp
  moreover have "round_half_even (23 / 160 * 100 * 100) = 1438"
    by code_simp
  moreover have "float_round (1437 / 100) \<noteq> float_round (1438 / 100)"
    unfolding percentage_23_of_160 by simp
  ultimately show ?thesis
    using example_many_summary by simp
qed

text \<open>
  C3, amended.  For an existing system with at least one tracking record the summary
  succeeds and leaves the store as it is; its total is the number of the system's
  records; its breakdown has exactly the four status names as keys, each with the
  number of records in that status; the four individual counts are exposed.  Its
  percentage is the float nearest to \<open>k / 100\<close> for the integer \<open>k\<close> for which
  \<open>k / 100\<close> is nearest, ties to an even \<open>k\<close>, to the float value of
  \<^verbatim>\<open>completed / total * 100\<close>; that float value differs from the exact quotient
  times 100 by less than \<open>10\<^sup>-\<^sup>1\<^sup>2\<close>.  For the statuses completed, completed, in
  progress, not started it reports 4, 2, 1, 1, 0 and 50.0.
\<close>

theorem summary_counts_and_rounded_percentage:
  assumes "find (\<lambda>s. s_id s = sid) (ai_systems d) = Some sys"
    and "mappings_of sid d \<noteq> []"
  shows "\<exists>r k. get_system_compliance sid d = (Inr r, d)
     \<and> total_requirements r = int (length (mappings_of sid d))
     \<and> map fst (status_breakdown r)
         = [''not_started'', ''in_progress'', ''completed'', ''non_compliant'']
     \<and> (\<forall>st. map_of (status_breakdown r) (status_value st)
              = Some (count_status st (mappings_of sid d)))
     \<and> compliance_percentage r = PyFloat (float_round (of_int k / 100))
     \<and> \<bar>of_int k / 100
         - float_percentage (count_status COMPLETED (mappings_of sid d))
             (int (length (mappings_of sid d)))\<bar> \<le> 1 / 200
     \<and> (\<bar>of_int k / 100
          - float_percentage (count_status COMPLETED (mappings_of sid d))
              (int (length (mappings_of sid d)))\<bar> = 1 / 200 \<longrightarrow> even k)
     \<and> \<bar>float_percentage (count_status COMPLETED (mappings_of sid d))
           (int (length (mappings_of sid d)))
         - of_int (count_status COMPLETED (mappings_of sid d))
             / of_int (int (length (mappings_of sid d))) * 100\<bar> \<le> 1 / 10 ^ 12
     \<and> requirements_completed r = Some (count_status COMPLETED (mappings_of sid d))
     \<and> requirements_in_progress r = Some (count_status IN_PROGRESS (mappings_of sid d))
     \<and> requirements_not_started r = Some (count_status NOT_STARTED (mappings_of sid d))
     \<and> requirements_non_compliant r = Some (count_status NON_COMPLIANT (mappings_of sid d))
     \<and> (map m_status (mappings_of sid d) = [COMPLETED, COMPLETED, IN_PROGRESS, NOT_STARTED]
          \<longrightarrow> total_requirements r = 4
              \<and> requirements_completed r = Some 2
              \<and> requirements_in_progress r = Some 1
              \<and> requirements_not_started r = Some 1
              \<and> requirements_non_compliant r = Some 0
              \<and> compliance_percentage r = PyFloat 50)"
proof -
  let ?ms = "mappings_of sid d"
  let ?c = "count_status COMPLETED ?ms"
  let ?n = "int (length ?ms)"
  have every: "map_of [(''not_started'', count_status NOT_STARTED ?ms),
             (''in_progress'', count_status IN_PROGRESS ?ms),
             (''completed'', count_status COMPLETED ?ms),
             (''non_compliant'', count_status NON_COMPLIANT ?ms)] (status_value st)
        = Some (count_status st ?ms)" for st
    by (cases st) simp_all
  have example: "int (length ?ms) = 4 \<and> count_status COMPLETED ?ms = 2
      \<and> count_status IN_PROGRESS ?ms = 1 \<and> count_status NOT_STARTED ?ms = 1
      \<and> count_status NON_COMPLIANT ?ms = 0"
    if "map m_status ?ms = [COMPLETED, COMPLETED, IN_PROGRESS, NOT_STARTED]"
  proof -
    have "length ?ms = 4"
      using arg_cong [OF that, of length] by simp
    then show ?thesis
      by (simp add: count_status_map that)
  qed
  have accurate: "\<bar>float_percentage ?c ?n - of_int ?c / of_int ?n * 100\<bar> \<le> 1 / 10 ^ 12"
    using count_status_range [of COMPLETED ?ms] assms(2)
      float_percentage_accuracy [of ?c ?n]
    by (simp add: mult.commute)
  obtain k where k: "completion_percentage ?c ?n = float_round (of_int k / 100)"
    "\<bar>of_int k / 100 - float_percentage ?c ?n\<bar> \<le> 1 / 200"
    "\<bar>of_int k / 100 - float_percentage ?c ?n\<bar> = 1 / 200 \<longrightarrow> even k"
    using percentage_rounded [of ?c ?n] by blast
  have fifty: "float_round (of_int k / 100) = 50"
    if "map m_status ?ms = [COMPLETED, COMPLETED, IN_PROGRESS, NOT_STARTED]"
  proof -
    have "completion_percentage ?c ?n = 50"
      using example [OF that] by (simp add: percentage_half)
    then show ?thesis
      using k(1) by simp
  qed
  show ?thesis
    unfolding summary_nonempty [OF assms]
    apply (intro exI [of _ k] exI conjI impI)
                       apply (rule refl)
    using every example accurate k fifty by simp_all
qed

theorem summary_counts_and_rounded_percentage_witness:
  "find (\<lambda>s. s_id s = ''id-'') (ai_systems example_many) = Some (example_system HIGH)
   \<and> mappings_of ''id-'' example_many \<noteq> []
   \<and> (\<exists>r. get_system_compliance ''id-'' example_many = (Inr r, example_many)
        \<and> total_requirements r = 160
        \<and> map_of (status_breakdown r) ''completed'' = Some 23
        \<and> map_of (status_breakdown r) ''in_progress'' = Some 0
        \<and> requirements_completed r = Some 23
        \<and> requirements_not_started r = Some 137
        \<and> compliance_percentage r = PyFloat (float_round (1437 / 100)))
   \<and> find (\<lambda>s. s_id s = ''id-'') (ai_systems example_progress) = Some (example_system HIGH)
   \<and> map m_status (mappings_of ''id-'' example_progress)
       = [COMPLETED, COMPLETED, IN_PROGRESS, NOT_STARTED]
   \<and> (\<exists>r. get_system_compliance ''id-'' example_progress = (Inr r, example_progress)
        \<and> total_requirements r = 4
        \<and> requirements_completed r = Some 2
        \<and> requirements_in_progress r = Some 1
        \<and> requirements_not_started r = Some 1
        \<and> requirements_non_compliant r = Some 0
        \<and> compliance_percentage r = PyFloat 50)"
proof -
  let ?ms = "mappings_of ''id-'' example_many"
  let ?ps = "mappings_of ''id-'' example_progress"
  have m1: "find (\<lambda>s. s_id s = ''id-'') (ai_systems example_many)
              = Some (example_system HIGH)"
    by (rule example_many_found)
  have m2: "?ms \<noteq> []"
    using example_many_counts(1) by (auto simp: example_many_mappings)
  have mc: "int (length ?ms) = 160" "count_status COMPLETED ?ms = 23"
    "count_status IN_PROGRESS ?ms = 0" "count_status NOT_STARTED ?ms = 137"
    by (simp_all add: example_many_mappings example_many_counts)
  from summary_counts_and_rounded_percentage [OF m1 m2]
  obtain r k where r: "get_system_compliance ''id-'' example_many = (Inr r, example_many)"
    "total_requirements r = 160"
    "\<forall>st. map_of (status_breakdown r) (status_value st) = Some (count_status st ?ms)"
    "requirements_completed r = Some 23" "requirements_not_started r = Some 137"
    "compliance_percentage r = PyFloat (float_round (of_int k / 100))"
    "\<bar>of_int k / 100 - float_percentage 23 160\<bar> \<le> 1 / 200"
    unfolding mc by blast
  have "(1436::rat) < of_int k" "of_int k < (1438::rat)"
    using r(7) unfolding percentage_23_of_160(1) by linarith+
  then have "k = 1437"
    by simp
  then have pct: "compliance_percentage r = PyFloat (float_round (1437 / 100))"
    using r(6) by simp
  have bd: "map_of (status_breakdown r) ''completed'' = Some 23"
    "map_of (status_breakdown r) ''in_progress'' = Some 0"
    using r(3) [rule_format, of COMPLETED] r(3) [rule_format, of IN_PROGRESS] mc
    by simp_all
  have many: "\<exists>r. get_system_compliance ''id-'' example_many = (Inr r, example_many)
        \<and> total_requirements r = 160
        \<and> map_of (status_breakdown r) ''completed'' = Some 23
        \<and> map_of (status_breakdown r) ''in_progress'' = Some 0
        \<and> requirements_completed r = Some 23
        \<and> requirements_not_started r = Some 137
        \<and> compliance_percentage r = PyFloat (float_round (1437 / 100))"
    using r(1,2,4,5) pct bd by blast
  have p1: "find (\<lambda>s. s_id s = ''id-'') (ai_systems example_progress)
              = Some (example_system HIGH)"
    by (rule example_system_found)
  have st: "map m_status ?ps = [COMPLETED, COMPLETED, IN_PROGRESS, NOT_STARTED]"
    by (simp add: example_progress_mappings example_progress_statuses)
  have p2: "?ps \<noteq> []"
    using st by auto
  from summary_counts_and_rounded_percentage [OF p1 p2]
  have progress: "\<exists>r. get_system_compliance ''id-'' example_progress = (Inr r, example_progress)
        \<and> total_requirements r = 4
        \<and> requirements_completed r = Some 2
        \<and> requirements_in_progress r = Some 1
        \<and> requirements_not_started r = Some 1
        \<and> requirements_non_compliant r = Some 0
        \<and> compliance_percentage r = PyFloat 50"
    using st by blast
  show ?thesis
    using m1 m2 many p1 st progress by blast
qed

text \<open>
  C10.  For an existing system with at least one tracking record the breakdown is the
  four status names with four counts that add up to the reported total, and each
  individually exposed count is the breakdown's entry of that status.
\<close>

theorem breakdown_sums_to_total:
  assumes "find (\<lambda>s. s_id s = sid) (ai_systems d) = Some sys"
    and "mappings_of sid d \<noteq> []"
  shows "\<exists>r a b c e. get_system_compliance sid d = (Inr r, d)
     \<and> status_breakdown r
         = [(''not_started'', a), (''in_progress'', b), (''completed'', c),
            (''non_compliant'', e)]
     \<and> a + b + c + e = total_requirements r
     \<and> requirements_not_started r = Some a
     \<and> requirements_in_progress r = Some b
     \<and> requirements_completed r = Some c
     \<and> requirements_non_compliant r = Some e"
  unfolding summary_nonempty [OF assms]
  using count_status_total [of "mappings_of sid d"] by simp

theorem breakdown_sums_to_total_witness:
  "find (\<lambda>s. s_id s = ''id-'') (ai_systems example_progress) = Some (example_system HIGH)
   \<and> mappings_of ''id-'' example_progress \<noteq> []
   \<and> (\<exists>r a b c e.
        get_system_compliance ''id-'' example_progress = (Inr r, example_progress)
        \<and> status_breakdown r
            = [(''not_started'', a), (''in_progress'', b), (''completed'', c),
               (''non_compliant'', e)]
        \<and> a + b + c + e = total_requirements r
        \<and> requirements_not_started r = Some a
        \<and> requirements_in_progress r = Some b
        \<and> requirements_completed r = Some c
        \<and> requirements_non_compliant r = Some e)"
proof -
  have h1: "find (\<lambda>s. s_id s = ''id-'') (ai_systems example_progress)
              = Some (example_system HIGH)"
    by (rule example_system_found)
  have h2: "mappings_of ''id-'' example_progress \<noteq> []"
    using example_progress_statuses by (auto simp: example_progress_mappings)
  show ?thesis
    using h1 h2 breakdown_sums_to_total [OF h1 h2] by blast
qed

text \<open>
  C4 fails on the breakdown: for the registered minimal-risk system, which has no
  tracking record, the summary's breakdown is the empty dict, so no status is present
  in it.
\<close>

theorem summary_zero_breakdown_empty:
  "get_system_compliance ''id-'' example_minimal
     = (Inr \<lparr>system_id = ''id-'', system_name = ''Scoring model'',
             risk_category = ''minimal'', total_requirements = 0,
             compliance_percentage = PyInt 0, status_breakdown = [],
             requirements_completed = None, requirements_in_progress = None,
             requirements_not_started = None, requirements_non_compliant = None\<rparr>,
        example_minimal)
   \<and> map_of ([] :: status_dict) ''not_started'' = None"
  by (simp add: get_system_compliance_def summarize_def example_minimal_def
      example_system_def)

text \<open>
  C4, amended.  For an existing system with zero tracking records the summary succeeds
  and leaves the store as it is; it reports total 0, the integer percentage 0, an
  empty breakdown and none of the four individual counts.
\<close>

theorem summary_zero_records:
  assumes "find (\<lambda>s. s_id s = sid) (ai_systems d) = Some sys"
    and "mappings_of sid d = []"
  shows "\<exists>r. get_system_compliance sid d = (Inr r, d)
     \<and> total_requirements r = 0
     \<and> compliance_percentage r = PyInt 0
     \<and> status_breakdown r = []
     \<and> requirements_completed r = None
     \<and> requirements_in_progress r = None
     \<and> requirements_not_started r = None
     \<and> requirements_non_compliant r = None"
  unfolding summary_empty [OF assms] by simp

theorem summary_zero_records_witness:
  "find (\<lambda>s. s_id s = ''id-'') (ai_systems example_minimal) = Some (example_system MINIMAL)
   \<and> mappings_of ''id-'' example_minimal = []
   \<and> (\<exists>r. get_system_compliance ''id-'' example_minimal = (Inr r, example_minimal)
        \<and> total_requirements r = 0
        \<and> compliance_percentage r = PyInt 0
        \<and> status_breakdown r = []
        \<and> requirements_completed r = None
        \<and> requirements_in_progress r = None
        \<and> requirements_not_started r = None
        \<and> requirements_non_compliant r = None)"
proof -
  have h1: "find (\<lambda>s. s_id s = ''id-'') (ai_systems example_minimal)
              = Some (example_system MINIMAL)"
    by (rule example_system_found)
  have h2: "mappings_of ''id-'' example_minimal = []"
    by (simp add: mappings_of_def example_minimal_def)
  show ?thesis
    using h1 h2 summary_zero_records [OF h1 h2] by blast
qed

subsection \<open>Registration\<close>

lemma assign_requirements_Inr:
  assumes "catalog_loads env risk reqs"
  shows "assign_requirements env risk sid reqs pending
         = Inr (pending @ map (new_pending sid)
                  (filter (\<lambda>q. requirement_applies env risk q = Inr True) reqs))"
  using assms
proof (induction reqs arbitrary: pending)
  case Nil
  show ?case by simp
next
  case (Cons q reqs)
  then show ?case
    by (auto simp: catalog_loads_def requirement_applies_def sum_bind_def new_pending_def
        split: sum.splits)
qed

lemma assign_requirements_Inl:
  assumes "\<not> catalog_loads env risk reqs"
  shows "isl (assign_requirements env risk sid reqs pending)"
  using assms
proof (induction reqs arbitrary: pending)
  case Nil
  then show ?case by (simp add: catalog_loads_def)
next
  case (Cons q reqs)
  then show ?case
    by (auto simp: catalog_loads_def requirement_applies_def sum_bind_def
        split: sum.splits)
qed

lemma map_zip_fst:
  "length xs = length ys \<Longrightarrow> map (\<lambda>x. f (fst x)) (zip xs ys) = map f xs"
  by (induction xs ys rule: list_induct2) auto

lemma map_zip_snd:
  "length xs = length ys \<Longrightarrow> map (\<lambda>x. f (snd x)) (zip xs ys) = map f ys"
  by (induction xs ys rule: list_induct2) auto

lemma flushed_ids:
  "map m_id (map (flush_mapping env) (enumerate 0 ps))
   = map (\<lambda>k. uuid4 env (Suc k)) [0..<length ps]"
  using map_zip_fst [of "[0..<length ps]" ps "\<lambda>k. uuid4 env (Suc k)"]
  by (simp add: enumerate_eq_zip flush_mapping_def o_def)

lemma flushed_requirements:
  "map m_requirement_id (map (flush_mapping env) (enumerate 0 ps)) = map p_requirement_id ps"
  using map_zip_snd [of "[0..<length ps]" ps p_requirement_id]
  by (simp add: enumerate_eq_zip flush_mapping_def o_def)

lemma flushed_fields:
  assumes "m \<in> set (map (flush_mapping env) (enumerate 0 ps))"
  shows "m_notes m = None \<and> m_updated_by m = None
         \<and> m_created_at m = utcnow env \<and> m_updated_at m = utcnow env
         \<and> (\<exists>p \<in> set ps. m_ai_system_id m = p_ai_system_id p \<and> m_status m = p_status p
               \<and> m_requirement_id m = p_requirement_id p)"
  using assms
  by (auto simp: flush_mapping_def enumerate_eq_zip dest: set_zip_rightD)

text \<open>The handler, case by case.\<close>

lemma create_ai_system_cases:
  "create_ai_system env system d =
     (if uuid4 env 0 \<in> set (map s_id (ai_systems d)) then (Inl IntegrityError, [])
      else case catalog_query_error env of
             Some e \<Rightarrow> (Inl e, [system_committed env system d])
           | None \<Rightarrow>
               (case assign_requirements env (risk_value (c_risk_category system))
                       (uuid4 env 0) (compliance_requirements d) [] of
                  Inl e \<Rightarrow> (Inl e, [system_committed env system d])
                | Inr pending \<Rightarrow>
                    (case commit_insert_mappings env (system_committed env system d) pending of
                       Inl e \<Rightarrow> (Inl e, [system_committed env system d])
                     | Inr d2 \<Rightarrow>
                         (Inr (system_response (new_system_row env system)),
                          [system_committed env system d, d2]))))"
  by (simp add: create_ai_system_def commit_insert_system_def query_all_requirements_def
      system_committed_def new_system_row_def Let_def split: option.splits sum.splits)

lemma registration_record_ids:
  "map m_id (registration_records env system d)
   = map (\<lambda>k. uuid4 env (Suc k))
       [0..<length (applicable_requirements env (c_risk_category system) d)]"
  unfolding registration_records_def by (simp only: flushed_ids length_map)

lemma registration_record_requirements:
  "map m_requirement_id (registration_records env system d)
   = map r_id (applicable_requirements env (c_risk_category system) d)"
  unfolding registration_records_def flushed_requirements
  by (simp add: new_pending_def o_def)

lemma registration_record_fields:
  assumes "m \<in> set (registration_records env system d)"
  shows "m_status m = NOT_STARTED \<and> m_notes m = None \<and> m_updated_by m = None
         \<and> m_ai_system_id m = uuid4 env 0
         \<and> m_created_at m = utcnow env \<and> m_updated_at m = utcnow env"
  using flushed_fields [OF assms [unfolded registration_records_def]]
  by (auto simp: new_pending_def)

lemma create_ai_system_success:
  assumes "uuid4 env 0 \<notin> set (map s_id (ai_systems d))"
    and "catalog_query_error env = None"
    and "catalog_loads env (risk_value (c_risk_category system)) (compliance_requirements d)"
    and "distinct (map m_id (registration_records env system d))"
    and "set (map m_id (registration_records env system d))
           \<inter> set (map m_id (requirement_mappings d)) = {}"
  shows "create_ai_system env system d
         = (Inr (system_response (new_system_row env system)),
            [system_committed env system d, records_committed env system d])"
proof -
  have loop: "assign_requirements env (risk_value (c_risk_category system)) (uuid4 env 0)
                (compliance_requirements d) []
              = Inr (map (new_pending (uuid4 env 0))
                       (applicable_requirements env (c_risk_category system) d))"
    using assign_requirements_Inr [OF assms(3), of "uuid4 env 0" "[]"]
    by (simp add: applicable_requirements_def)
  have commit: "commit_insert_mappings env (system_committed env system d)
                  (map (new_pending (uuid4 env 0))
                     (applicable_requirements env (c_risk_category system) d))
                = Inr (records_committed env system d)"
  proof -
    have ok: "distinct (map m_id (registration_records env system d))
        \<and> set (map m_id (registration_records env system d))
            \<inter> set (map m_id (requirement_mappings (system_committed env system d))) = {}"
      using assms(4,5) by (simp add: system_committed_def)
    show ?thesis
      apply (unfold commit_insert_mappings_def Let_def)
      apply (fold registration_records_def)
      using ok by (simp add: records_committed_def system_committed_def)
  qed
  show ?thesis
    using assms(1,2) by (simp add: create_ai_system_cases loop commit)
qed

lemma fresh_ids_records:
  assumes "fresh_ids env d (length (compliance_requirements d))"
  shows "distinct (map m_id (registration_records env system d))"
    and "set (map m_id (registration_records env system d))
           \<inter> set (map m_id (requirement_mappings d)) = {}"
proof -
  let ?n = "length (compliance_requirements d)"
  let ?k = "length (applicable_requirements env (c_risk_category system) d)"
  let ?f = "\<lambda>k. uuid4 env (Suc k)"
  have "?k \<le> ?n"
    by (simp add: applicable_requirements_def)
  then have tk: "map ?f [0..<?k] = take ?k (map ?f [0..<?n])"
    by (simp add: take_map min_def)
  have d: "distinct (map ?f [0..<?n])"
    and i: "set (map ?f [0..<?n]) \<inter> set (map m_id (requirement_mappings d)) = {}"
    using assms by (simp_all add: fresh_ids_def)
  show "distinct (map m_id (registration_records env system d))"
    unfolding registration_record_ids tk using d by (rule distinct_take)
  have "set (take ?k (map ?f [0..<?n])) \<subseteq> set (map ?f [0..<?n])"
    by (rule set_take_subset)
  then show "set (map m_id (registration_records env system d))
           \<inter> set (map m_id (requirement_mappings d)) = {}"
    unfolding registration_record_ids tk using i by blast
qed

lemma count_by_key:
  "distinct (map f xs) \<Longrightarrow> q \<in> set xs \<Longrightarrow>
   length (filter (\<lambda>x. f x = f q) (filter P xs)) = (if P q then 1 else 0)"
proof (induction xs)
  case Nil
  then show ?case by simp
next
  case (Cons x xs)
  have "f x \<notin> f ` set xs"
    using Cons.prems(1) by simp
  then have "\<forall>y \<in> set xs. f y \<noteq> f x"
    by (metis imageI)
  then have none: "filter (\<lambda>y. f y = f x) (filter P xs) = []"
    by (simp add: filter_empty_conv)
  show ?case
  proof (cases "q = x")
    case True
    then show ?thesis using none by simp
  next
    case False
    then have q: "q \<in> set xs" and neq: "f x \<noteq> f q"
      using Cons.prems by auto
    have "filter (\<lambda>y. f y = f q) (filter P (x # xs))
          = filter (\<lambda>y. f y = f q) (filter P xs)"
      using neq by simp
    moreover have "length (filter (\<lambda>y. f y = f q) (filter P xs)) = (if P q then 1 else 0)"
      using Cons.prems(1) q by (intro Cons.IH) simp_all
    ultimately show ?thesis
      by (simp only:)
  qed
qed

lemma loads_to_list_applies:
  assumes "loads_to_list env q"
  shows "requirement_applies env (risk_value R) q = Inr (in_applicability_set env R q)"
  using assms
  by (auto simp: loads_to_list_def requirement_applies_def in_applicability_set_def
      sum_bind_def split: sum.splits json.splits)

lemma tracking_records_created:
  assumes "distinct (map r_id (compliance_requirements d))"
    and "q \<in> set (compliance_requirements d)"
  shows "length (tracking_records (uuid4 env 0) (r_id q) (registration_records env system d))
         = (if requirement_applies env (risk_value (c_risk_category system)) q = Inr True
            then 1 else 0)"
proof -
  let ?rs = "registration_records env system d"
  have "tracking_records (uuid4 env 0) (r_id q) ?rs
        = filter (\<lambda>m. m_requirement_id m = r_id q) ?rs"
    unfolding tracking_records_def
    by (rule filter_cong) (auto dest: registration_record_fields)
  then have "length (tracking_records (uuid4 env 0) (r_id q) ?rs)
        = length (filter (\<lambda>x. x = r_id q) (map m_requirement_id ?rs))"
    by (simp add: filter_map o_def)
  also have "\<dots> = length (filter (\<lambda>x. r_id x = r_id q)
                        (applicable_requirements env (c_risk_category system) d))"
    by (simp add: registration_record_requirements filter_map o_def)
  also have "\<dots> = (if requirement_applies env (risk_value (c_risk_category system)) q = Inr True
            then 1 else 0)"
    unfolding applicable_requirements_def using assms by (rule count_by_key)
  finally show ?thesis .
qed

text \<open>
  C1.  Let every \<^verbatim>\<open>applies_to\<close> text of the catalog load to a JSON list, the catalog
  identifiers be distinct, the catalog query succeed and the drawn identifiers be new.
  Then the registration succeeds with two commits, the second of which appends the
  created records to the mapping table; for every catalog requirement, the number of
  created records that link the new system and the requirement is one when the
  system's risk category is in the requirement's list and zero otherwise; and every
  created record links the new system to a catalog requirement, has status
  \<open>NOT_STARTED\<close>, no notes and no updater.
\<close>

theorem registration_assigns_applicable:
  assumes "list_all (loads_to_list env) (compliance_requirements d)"
    and "distinct (map r_id (compliance_requirements d))"
    and "catalog_query_error env = None"
    and "fresh_ids env d (length (compliance_requirements d))"
  shows "\<exists>resp d1 d2 created.
           create_ai_system env system d = (Inr resp, [d1, d2])
           \<and> a_id resp = uuid4 env 0
           \<and> ai_systems d2 = ai_systems d @ [new_system_row env system]
           \<and> requirement_mappings d2 = requirement_mappings d @ created
           \<and> (\<forall>q \<in> set (compliance_requirements d).
                 length (tracking_records (a_id resp) (r_id q) created)
                 = (if in_applicability_set env (c_risk_category system) q then 1 else 0))
           \<and> (\<forall>m \<in> set created.
                 m_ai_system_id m = a_id resp
                 \<and> m_requirement_id m \<in> set (map r_id (compliance_requirements d))
                 \<and> m_status m = NOT_STARTED \<and> m_notes m = None \<and> m_updated_by m = None)"
proof -
  let ?R = "c_risk_category system"
  let ?rs = "registration_records env system d"
  have applies: "requirement_applies env (risk_value ?R) q = Inr (in_applicability_set env ?R q)"
    if "q \<in> set (compliance_requirements d)" for q
    using assms(1) that by (simp add: list_all_iff loads_to_list_applies)
  then have loads: "catalog_loads env (risk_value ?R) (compliance_requirements d)"
    by (simp add: catalog_loads_def list_all_iff)
  have fresh: "uuid4 env 0 \<notin> set (map s_id (ai_systems d))"
    using assms(4) by (simp add: fresh_ids_def)
  have run: "create_ai_system env system d
         = (Inr (system_response (new_system_row env system)),
            [system_committed env system d, records_committed env system d])"
    using fresh assms(3) loads fresh_ids_records [OF assms(4)]
    by (rule create_ai_system_success)
  have count: "length (tracking_records (uuid4 env 0) (r_id q) ?rs)
                 = (if in_applicability_set env ?R q then 1 else 0)"
    if "q \<in> set (compliance_requirements d)" for q
    using tracking_records_created [OF assms(2) that, of env system] applies [OF that]
    by simp
  have refs: "m_requirement_id m \<in> set (map r_id (compliance_requirements d))"
    if "m \<in> set ?rs" for m
  proof -
    have "m_requirement_id m \<in> set (map m_requirement_id ?rs)"
      using that by simp
    then show ?thesis
      unfolding registration_record_requirements
      by (auto simp: applicable_requirements_def)
  qed
  have "a_id (system_response (new_system_row env system)) = uuid4 env 0"
    by (simp add: system_response_def new_system_row_def)
  moreover have "ai_systems (records_committed env system d)
                 = ai_systems d @ [new_system_row env system]"
    by (simp add: records_committed_def system_committed_def)
  moreover have "requirement_mappings (records_committed env system d)
                 = requirement_mappings d @ ?rs"
    by (simp add: records_committed_def)
  ultimately show ?thesis
    unfolding run using count refs registration_record_fields [of _ env system d]
    by (intro exI [of _ "system_response (new_system_row env system)"]
        exI [of _ "system_committed env system d"]
        exI [of _ "records_committed env system d"] exI [of _ ?rs]) simp
qed

lemma example_catalog_ok:
  "list_all (loads_to_list example_env) (compliance_requirements example_seeded)"
  "distinct (map r_id (compliance_requirements example_seeded))"
  "catalog_query_error example_env = None"
  "fresh_ids example_env example_seeded (length (compliance_requirements example_seeded))"
  by (simp_all add: example_defs loads_to_list_def fresh_ids_def upt_rec)

theorem registration_assigns_applicable_witness:
  "list_all (loads_to_list example_env) (compliance_requirements example_seeded)
   \<and> distinct (map r_id (compliance_requirements example_seeded))
   \<and> catalog_query_error example_env = None
   \<and> fresh_ids example_env example_seeded (length (compliance_requirements example_seeded))
   \<and> (\<exists>resp d1 d2 created.
        create_ai_system example_env (example_create HIGH) example_seeded
          = (Inr resp, [d1, d2])
        \<and> a_id resp = ''id-''
        \<and> requirement_mappings d2 = created
        \<and> length (tracking_records ''id-'' ''req-9'' created) = 1
        \<and> length (tracking_records ''id-'' ''req-50'' created) = 1
        \<and> length (tracking_records ''id-'' ''req-5'' created) = 0
        \<and> list_all (\<lambda>m. m_status m = NOT_STARTED \<and> m_notes m = None
                          \<and> m_updated_by m = None) created)"
proof -
  let ?cat = "compliance_requirements example_seeded"
  have member: "example_requirement ''req-9'' ''Risk management'' ''[\"high\"]'' \<in> set ?cat"
    "example_requirement ''req-50'' ''Transparency'' ''[\"high\", \"limited\"]'' \<in> set ?cat"
    "example_requirement ''req-5'' ''Prohibited practices'' ''[\"unacceptable\"]'' \<in> set ?cat"
    by (simp_all add: example_seeded_def example_catalog_def)
  have applies:
    "in_applicability_set example_env HIGH
       (example_requirement ''req-9'' ''Risk management'' ''[\"high\"]'')"
    "in_applicability_set example_env HIGH
       (example_requirement ''req-50'' ''Transparency'' ''[\"high\", \"limited\"]'')"
    "\<not> in_applicability_set example_env HIGH
       (example_requirement ''req-5'' ''Prohibited practices'' ''[\"unacceptable\"]'')"
    by (simp_all add: in_applicability_set_def example_defs)
  have ids: "uuid4 example_env 0 = ''id-''" "c_risk_category (example_create HIGH) = HIGH"
    "requirement_mappings example_seeded = []"
    by (simp_all add: example_defs)
  from registration_assigns_applicable [OF example_catalog_ok, of "example_create HIGH"]
  obtain resp d1 d2 created where
    run: "create_ai_system example_env (example_create HIGH) example_seeded
            = (Inr resp, [d1, d2])"
    and id: "a_id resp = ''id-''"
    and ms: "requirement_mappings d2 = created"
    and count: "\<forall>q \<in> set ?cat. length (tracking_records ''id-'' (r_id q) created)
                 = (if in_applicability_set example_env HIGH q then 1 else 0)"
    and fields: "\<forall>m \<in> set created. m_status m = NOT_STARTED \<and> m_notes m = None
                   \<and> m_updated_by m = None"
    unfolding ids by auto
  have "length (tracking_records ''id-'' ''req-9'' created) = 1"
    "length (tracking_records ''id-'' ''req-50'' created) = 1"
    "length (tracking_records ''id-'' ''req-5'' created) = 0"
    using count [rule_format, OF member(1)] count [rule_format, OF member(2)]
      count [rule_format, OF member(3)] applies
    by (simp_all add: example_requirement_def)
  moreover have "list_all (\<lambda>m. m_status m = NOT_STARTED \<and> m_notes m = None
                          \<and> m_updated_by m = None) created"
    using fields by (simp add: list_all_iff)
  ultimately show ?thesis
    using example_catalog_ok run id ms by blast
qed

subsection \<open>Every outcome of a registration\<close>

lemma create_ai_system_outcome:
  "create_ai_system env system d =
     (if uuid4 env 0 \<in> set (map s_id (ai_systems d)) then (Inl IntegrityError, [])
      else case catalog_query_error env of
             Some e \<Rightarrow> (Inl e, [system_committed env system d])
           | None \<Rightarrow>
               (case assign_requirements env (risk_value (c_risk_category system))
                       (uuid4 env 0) (compliance_requirements d) [] of
                  Inl e \<Rightarrow> (Inl e, [system_committed env system d])
                | Inr pending \<Rightarrow>
                    if distinct (map m_id (registration_records env system d))
                       \<and> set (map m_id (registration_records env system d))
                           \<inter> set (map m_id (requirement_mappings d)) = {}
                    then (Inr (system_response (new_system_row env system)),
                          [system_committed env system d, records_committed env system d])
                    else (Inl IntegrityError, [system_committed env system d])))"
proof (cases "catalog_loads env (risk_value (c_risk_category system)) (compliance_requirements d)")
  case True
  have loop: "assign_requirements env (risk_value (c_risk_category system)) (uuid4 env 0)
                (compliance_requirements d) []
              = Inr (map (new_pending (uuid4 env 0))
                       (applicable_requirements env (c_risk_category system) d))"
    using assign_requirements_Inr [OF True, of "uuid4 env 0" "[]"]
    by (simp add: applicable_requirements_def)
  have commit: "commit_insert_mappings env (system_committed env system d)
                  (map (new_pending (uuid4 env 0))
                     (applicable_requirements env (c_risk_category system) d))
                = (if distinct (map m_id (registration_records env system d))
                       \<and> set (map m_id (registration_records env system d))
                           \<inter> set (map m_id (requirement_mappings d)) = {}
                   then Inr (records_committed env system d) else Inl IntegrityError)"
    apply (unfold commit_insert_mappings_def Let_def)
    apply (fold registration_records_def)
    by (simp add: records_committed_def system_committed_def)
  show ?thesis
    by (simp add: create_ai_system_cases loop commit split: option.splits)
next
  case False
  then obtain e where "assign_requirements env (risk_value (c_risk_category system))
      (uuid4 env 0) (compliance_requirements d) [] = Inl e"
    using assign_requirements_Inl [OF False, of "uuid4 env 0" "[]"]
    by (auto simp: isl_def)
  then show ?thesis
    by (simp add: create_ai_system_cases split: option.splits)
qed

lemma create_ai_system_Inr:
  assumes "create_ai_system env system d = (Inr resp, t)"
  shows "t = [system_committed env system d, records_committed env system d]"
    and "resp = system_response (new_system_row env system)"
    and "catalog_loads env (risk_value (c_risk_category system)) (compliance_requirements d)"
    and "uuid4 env 0 \<notin> set (map s_id (ai_systems d))"
    and "distinct (map m_id (registration_records env system d))"
    and "set (map m_id (registration_records env system d))
           \<inter> set (map m_id (requirement_mappings d)) = {}"
proof -
  have loads: "catalog_loads env (risk_value (c_risk_category system)) (compliance_requirements d)"
  proof (rule ccontr)
    assume "\<not> ?thesis"
    then obtain e where "assign_requirements env (risk_value (c_risk_category system))
      (uuid4 env 0) (compliance_requirements d) [] = Inl e"
      using assign_requirements_Inl [of env _ "compliance_requirements d" "uuid4 env 0" "[]"]
      by (auto simp: isl_def)
    then show False
      using assms by (simp add: create_ai_system_cases split: option.splits if_splits)
  qed
  show "catalog_loads env (risk_value (c_risk_category system)) (compliance_requirements d)"
    by (rule loads)
  show "t = [system_committed env system d, records_committed env system d]"
    and "resp = system_response (new_system_row env system)"
    and "uuid4 env 0 \<notin> set (map s_id (ai_systems d))"
    and "distinct (map m_id (registration_records env system d))"
    and "set (map m_id (registration_records env system d))
           \<inter> set (map m_id (requirement_mappings d)) = {}"
    using assms
    by (auto simp: create_ai_system_outcome split: option.splits if_splits sum.splits)
qed

lemma requirement_applies_loads:
  "json_loads env = json_loads env' \<Longrightarrow>
   requirement_applies env risk q = requirement_applies env' risk q"
  by (simp add: requirement_applies_def)

lemma created_requirements:
  assumes "create_ai_system env system d = (Inr resp, t)"
  shows "set (map m_requirement_id (created_records d (final_db d t)))
         = r_id ` {q \<in> set (compliance_requirements d).
                     requirement_applies env (risk_value (c_risk_category system)) q = Inr True}"
proof -
  have "created_records d (final_db d t) = registration_records env system d"
    unfolding create_ai_system_Inr(1) [OF assms]
    by (simp add: created_records_def final_db_def records_committed_def)
  then show ?thesis
    by (simp add: registration_record_requirements applicable_requirements_def)
qed

lemma example_run_high:
  "create_ai_system example_env (example_create HIGH) example_seeded
   = (Inr (system_response (example_system HIGH)), [example_registered, example_high])"
  by (simp add: create_ai_system_def commit_insert_system_def query_all_requirements_def
      commit_insert_mappings_def flush_mapping_def enumerate_eq_zip Let_def example_defs)


lemma example_run_shuffled:
  "\<exists>resp t. create_ai_system example_later (example_create HIGH) example_shuffled
             = (Inr resp, t)"
  by (simp add: create_ai_system_def commit_insert_system_def query_all_requirements_def
      commit_insert_mappings_def flush_mapping_def enumerate_eq_zip Let_def example_defs)

text \<open>
  C9.  Two successful registrations with the same risk category, the same
  \<^verbatim>\<open>json.loads\<close> and catalogs that hold the same rows, in whatever order, in whatever
  stores and with whatever identifiers and clock, create records for the same set of
  requirement identifiers.
\<close>

theorem registration_deterministic:
  assumes "set (compliance_requirements d) = set (compliance_requirements d')"
    and "json_loads env = json_loads env'"
    and "c_risk_category system = c_risk_category system'"
    and "create_ai_system env system d = (Inr resp, t)"
    and "create_ai_system env' system' d' = (Inr resp', t')"
  shows "set (map m_requirement_id (created_records d (final_db d t)))
         = set (map m_requirement_id (created_records d' (final_db d' t')))"
  unfolding created_requirements [OF assms(4)] created_requirements [OF assms(5)]
  using assms(1,3) requirement_applies_loads [OF assms(2)] by simp

theorem registration_deterministic_witness:
  "set (compliance_requirements example_seeded) = set (compliance_requirements example_shuffled)
   \<and> json_loads example_env = json_loads example_later
   \<and> (\<exists>resp t resp' t'.
        create_ai_system example_env (example_create HIGH) example_seeded = (Inr resp, t)
        \<and> create_ai_system example_later (example_create HIGH) example_shuffled
            = (Inr resp', t')
        \<and> set (map m_requirement_id
                 (created_records example_seeded (final_db example_seeded t)))
            = set (map m_requirement_id
                 (created_records example_shuffled (final_db example_shuffled t'))))"
proof -
  have h1: "set (compliance_requirements example_seeded)
            = set (compliance_requirements example_shuffled)"
    by (simp add: example_seeded_def example_shuffled_def)
  have h2: "json_loads example_env = json_loads example_later"
    by (simp add: example_later_def)
  obtain resp' t' where
    run': "create_ai_system example_later (example_create HIGH) example_shuffled
           = (Inr resp', t')"
    using example_run_shuffled by blast
  show ?thesis
    using h1 h2 example_run_high run'
      registration_deterministic [OF h1 h2 refl example_run_high run']
    by blast
qed

subsection \<open>The integrity conditions hold in every reachable store\<close>

lemma store_invariant_init:
  assumes "ai_systems d = []" and "requirement_mappings d = []"
    and "distinct (map r_id (compliance_requirements d))"
  shows "store_invariant d"
  using assms by (simp add: store_invariant_def)

lemma store_invariant_system_committed:
  assumes "store_invariant d" and "uuid4 env 0 \<notin> set (map s_id (ai_systems d))"
  shows "store_invariant (system_committed env system d)"
  using assms
  by (auto simp: store_invariant_def system_committed_def new_system_row_def)

lemma registration_record_keys:
  "map (\<lambda>m. (m_ai_system_id m, m_requirement_id m)) (registration_records env system d)
   = map (\<lambda>q. (uuid4 env 0, r_id q)) (applicable_requirements env (c_risk_category system) d)"
proof -
  let ?rs = "registration_records env system d"
  have "map (\<lambda>m. (m_ai_system_id m, m_requirement_id m)) ?rs
        = map (\<lambda>m. (uuid4 env 0, m_requirement_id m)) ?rs"
    by (rule map_cong) (auto dest: registration_record_fields)
  also have "\<dots> = map (Pair (uuid4 env 0)) (map m_requirement_id ?rs)"
    by (simp add: o_def)
  also have "\<dots> = map (\<lambda>q. (uuid4 env 0, r_id q))
                      (applicable_requirements env (c_risk_category system) d)"
    unfolding registration_record_requirements by (simp add: o_def)
  finally show ?thesis .
qed

lemma store_invariant_records_committed:
  assumes inv: "store_invariant d"
    and fresh: "uuid4 env 0 \<notin> set (map s_id (ai_systems d))"
    and ids: "distinct (map m_id (registration_records env system d))"
    and new: "set (map m_id (registration_records env system d))
                \<inter> set (map m_id (requirement_mappings d)) = {}"
  shows "store_invariant (records_committed env system d)"
proof -
  let ?rs = "registration_records env system d"
  let ?key = "\<lambda>m. (m_ai_system_id m, m_requirement_id m)"
  have cat: "distinct (map r_id (compliance_requirements d))"
    and sys: "distinct (map s_id (ai_systems d))"
    and mid: "distinct (map m_id (requirement_mappings d))"
    and ref: "set (map m_ai_system_id (requirement_mappings d)) \<subseteq> set (map s_id (ai_systems d))"
    and key: "distinct (map ?key (requirement_mappings d))"
    using inv by (simp_all add: store_invariant_def)
  have "distinct (map r_id (applicable_requirements env (c_risk_category system) d))"
    unfolding applicable_requirements_def using cat by (rule distinct_map_filter)
  then have "distinct (map (Pair (uuid4 env 0))
               (map r_id (applicable_requirements env (c_risk_category system) d)))"
    by (simp add: distinct_map inj_on_def)
  then have new_keys: "distinct (map ?key ?rs)"
    unfolding registration_record_keys by (simp add: o_def)
  have apart: "set (map ?key (requirement_mappings d)) \<inter> set (map ?key ?rs) = {}"
  proof -
    have old: "fst k \<in> set (map s_id (ai_systems d))"
      if "k \<in> set (map ?key (requirement_mappings d))" for k
      using that ref by auto
    have new: "fst k = uuid4 env 0" if "k \<in> set (map ?key ?rs)" for k
      using that unfolding registration_record_keys by auto
    show ?thesis
    proof (rule ccontr)
      assume "set (map ?key (requirement_mappings d)) \<inter> set (map ?key ?rs) \<noteq> {}"
      then obtain k where k: "k \<in> set (map ?key (requirement_mappings d))"
        "k \<in> set (map ?key ?rs)"
        by blast
      show False
        using old [OF k(1)] new [OF k(2)] fresh by simp
    qed
  qed
  have "m_ai_system_id m = uuid4 env 0" if "m \<in> set ?rs" for m
    using registration_record_fields [OF that] by simp
  then have refs: "set (map m_ai_system_id ?rs) \<subseteq> {uuid4 env 0}"
    by auto
  have "distinct (map s_id (ai_systems d @ [new_system_row env system]))"
    using sys fresh by (simp add: new_system_row_def)
  moreover have "distinct (map m_id (requirement_mappings d @ ?rs))"
    using mid ids new by (simp add: Int_commute)
  moreover have "set (map m_ai_system_id (requirement_mappings d @ ?rs))
                 \<subseteq> set (map s_id (ai_systems d @ [new_system_row env system]))"
    using ref refs by (auto simp: new_system_row_def)
  moreover have "distinct (map ?key (requirement_mappings d @ ?rs))"
    using key new_keys apart by simp
  ultimately show ?thesis
    using cat by (simp add: store_invariant_def records_committed_def system_committed_def)
qed

lemma store_invariant_register:
  assumes "store_invariant d" and "d' \<in> set (snd (create_ai_system env system d))"
  shows "store_invariant d'"
proof -
  have fresh: "uuid4 env 0 \<notin> set (map s_id (ai_systems d))"
    using assms(2) by (auto simp: create_ai_system_outcome split: if_splits)
  consider "d' = system_committed env system d"
    | "d' = records_committed env system d"
      "distinct (map m_id (registration_records env system d))"
      "set (map m_id (registration_records env system d))
         \<inter> set (map m_id (requirement_mappings d)) = {}"
    using assms(2)
    by (auto simp: create_ai_system_outcome split: if_splits option.splits sum.splits)
  then show ?thesis
  proof cases
    case 1
    then show ?thesis
      using store_invariant_system_committed [OF assms(1) fresh] by simp
  next
    case 2
    then show ?thesis
      using store_invariant_records_committed [OF assms(1) fresh] by simp
  qed
qed

lemma map_update_same:
  assumes "\<forall>m \<in> set ms. m_id m = mid \<longrightarrow> g row = g m"
  shows "map g (map (\<lambda>m. if m_id m = mid then row else m) ms) = map g ms"
  using assms by (induction ms) auto

lemma find_unique:
  assumes "distinct (map m_id ms)" and "find (\<lambda>x. m_id x = mid) ms = Some loaded"
    and "m \<in> set ms" and "m_id m = mid"
  shows "m = loaded"
proof -
  have "loaded \<in> set ms" "m_id loaded = mid"
    using assms(2) by (auto simp: find_Some_iff)
  then show ?thesis
    using assms(1,3,4) by (metis distinct_map inj_onD)
qed

lemma store_invariant_update:
  assumes "store_invariant d"
  shows "store_invariant (snd (update_requirement_status env mid upd d))"
proof (cases "find (\<lambda>x. m_id x = mid) (requirement_mappings d)")
  case None
  then show ?thesis
    using assms by (simp add: update_requirement_status_def)
next
  case (Some loaded)
  let ?row = "flush_update env loaded (assigned loaded upd)"
  let ?ms = "map (\<lambda>m. if m_id m = mid then ?row else m) (requirement_mappings d)"
  have ids: "distinct (map m_id (requirement_mappings d))"
    using assms by (simp add: store_invariant_def)
  have row: "m_id ?row = m_id loaded" "m_ai_system_id ?row = m_ai_system_id loaded"
    "m_requirement_id ?row = m_requirement_id loaded"
    by (simp_all add: flush_update_def assigned_def)
  have same: "\<forall>m \<in> set (requirement_mappings d). m_id m = mid \<longrightarrow> m = loaded"
    using find_unique [OF ids Some] by blast
  have "map m_id ?ms = map m_id (requirement_mappings d)"
    "map m_ai_system_id ?ms = map m_ai_system_id (requirement_mappings d)"
    "map (\<lambda>m. (m_ai_system_id m, m_requirement_id m)) ?ms
       = map (\<lambda>m. (m_ai_system_id m, m_requirement_id m)) (requirement_mappings d)"
    by (rule map_update_same, use same row in auto)+
  moreover have "snd (update_requirement_status env mid upd d)
                 = d\<lparr>requirement_mappings := ?ms\<rparr>"
    using find_Some_id [OF Some] row(1)
    by (simp add: update_store [OF Some] commit_update_mapping_def)
  ultimately show ?thesis
    using assms by (simp add: store_invariant_def del: map_map)
qed

lemma reachable_invariant: "reachable d \<Longrightarrow> store_invariant d"
proof (induction rule: reachable.induct)
  case (reach_init d)
  then show ?case by (rule store_invariant_init)
next
  case (reach_register d d' env system)
  then show ?case by (auto intro: store_invariant_register)
next
  case (reach_update d d' env mapping_id upd)
  then show ?case by (simp add: store_invariant_update)
next
  case (reach_get_system d d' sid)
  then show ?case by (simp add: get_ai_system_def split: option.splits)
next
  case (reach_get_compliance d d' sid)
  then show ?case by (simp add: get_system_compliance_def split: option.splits)
qed

lemma distinct_key_count:
  "distinct (map f xs) \<Longrightarrow> length (filter (\<lambda>x. f x = k) xs) \<le> 1"
  by (induction xs) (auto simp: filter_empty_conv image_iff)

text \<open>
  C5.  In every store reachable from a seeded catalog by registrations, status
  updates, system lookups and compliance summaries, including the store between the
  two commits of a registration, at most one tracking record references a given
  system and a given requirement.
\<close>

theorem at_most_one_record:
  assumes "reachable d"
  shows "length (tracking_records S Q (requirement_mappings d)) \<le> 1"
proof -
  have "distinct (map (\<lambda>m. (m_ai_system_id m, m_requirement_id m)) (requirement_mappings d))"
    using reachable_invariant [OF assms] by (simp add: store_invariant_def)
  then have "length (filter (\<lambda>m. (m_ai_system_id m, m_requirement_id m) = (S, Q))
               (requirement_mappings d)) \<le> 1"
    by (rule distinct_key_count)
  then show ?thesis
    by (simp add: tracking_records_def)
qed

lemma example_high_reachable: "reachable example_high"
proof -
  have "reachable example_seeded"
    by (rule reach_init) (simp_all add: example_defs)
  moreover have "example_high
      \<in> set (snd (create_ai_system example_env (example_create HIGH) example_seeded))"
    by (simp add: example_run_high)
  ultimately show ?thesis
    by (rule reach_register)
qed

theorem at_most_one_record_witness:
  "reachable example_high
   \<and> length (tracking_records ''id-'' ''req-9'' (requirement_mappings example_high)) \<le> 1
   \<and> length (tracking_records ''id-'' ''req-5'' (requirement_mappings example_high)) \<le> 1"
  using example_high_reachable
    at_most_one_record [OF example_high_reachable, of "''id-''" "''req-9''"]
    at_most_one_record [OF example_high_reachable, of "''id-''" "''req-5''"]
  by simp




end
